theory Spec2Isabelle
  imports Complex_Main "HOL-Library.Log_Nat"
begin

section \<open>JavaScript numbers\<close>

text \<open>
  A JavaScript number is an IEEE-754 binary64 value.  The finite ones are rationals, so
  the model is a rational together with the three special values; every arithmetic
  operation rounds its exact result back to binary64 (\<open>fl\<close>, round to nearest, ties to
  even, gradual underflow, overflow to infinity).  Negative zero is identified with zero:
  the code below only divides by a number it has tested to be \<open>> 0\<close>, adds to
  accumulators that start at \<open>+0\<close>, and prints with \<open>toFixed\<close>, none of which tells
  the two zeros apart.
\<close>

datatype jsnum = Num rat | NaN | PosInf | NegInf

definition pow2 :: "int \<Rightarrow> rat" where
  "pow2 e = (if 0 \<le> e then 2 ^ nat e else 1 / 2 ^ nat (- e))"

text \<open>\<open>ilog2 a\<close> is the exponent \<open>e\<close> with \<open>2\<^sup>e \<le> a < 2\<^sup>e\<^sup>+\<^sup>1\<close>, for \<open>a > 0\<close>; \<open>bitlen n\<close>
  is the number of binary digits of the integer \<open>n\<close>.\<close>

definition ilog2 :: "rat \<Rightarrow> int" where
  "ilog2 a = (if 1 \<le> a then bitlen \<lfloor>a\<rfloor> - 1
              else let k = bitlen \<lfloor>1 / a\<rfloor> - 1
                   in if a = pow2 (- k) then - k else - k - 1)"

definition roundHalfEven :: "rat \<Rightarrow> int" where
  "roundHalfEven r = (let f = \<lfloor>r\<rfloor>; d = r - of_int f
     in if d < 1 / 2 then f else if 1 / 2 < d then f + 1 else if even f then f else f + 1)"

definition fl :: "rat \<Rightarrow> jsnum" where
  "fl x = (if x = 0 then Num 0
           else let a = \<bar>x\<bar>;
                    e = max (ilog2 a) (- 1022);
                    m = roundHalfEven (a / pow2 (e - 52))
                in if 1024 \<le> e \<or> (e = 1023 \<and> m = 9007199254740992)
                   then (if 0 < x then PosInf else NegInf)
                   else Num ((if 0 < x then 1 else - 1) * of_int m * pow2 (e - 52)))"

definition jsign :: "jsnum \<Rightarrow> int" where
  "jsign x = (case x of Num a \<Rightarrow> (if a < 0 then - 1 else if a = 0 then 0 else 1)
                | PosInf \<Rightarrow> 1 | NegInf \<Rightarrow> - 1 | NaN \<Rightarrow> 0)"

text \<open>\<open>x + y\<close>\<close>

fun jadd :: "jsnum \<Rightarrow> jsnum \<Rightarrow> jsnum" where
  "jadd (Num a) (Num b) = fl (a + b)"
| "jadd NaN y = NaN"
| "jadd x NaN = NaN"
| "jadd PosInf NegInf = NaN"
| "jadd NegInf PosInf = NaN"
| "jadd PosInf y = PosInf"
| "jadd x PosInf = PosInf"
| "jadd NegInf y = NegInf"
| "jadd x NegInf = NegInf"

text \<open>\<open>x * y\<close>\<close>

definition jmul :: "jsnum \<Rightarrow> jsnum \<Rightarrow> jsnum" where
  "jmul x y = (case (x, y) of
       (Num a, Num b) \<Rightarrow> fl (a * b)
     | _ \<Rightarrow> if x = NaN \<or> y = NaN \<or> jsign x * jsign y = 0 then NaN
            else if 0 < jsign x * jsign y then PosInf else NegInf)"

text \<open>\<open>x / y\<close>\<close>

definition jdiv :: "jsnum \<Rightarrow> jsnum \<Rightarrow> jsnum" where
  "jdiv x y = (case (x, y) of
       (Num a, Num b) \<Rightarrow>
          if b = 0 then (if a = 0 then NaN else if 0 < a then PosInf else NegInf)
          else fl (a / b)
     | (Num a, NaN) \<Rightarrow> NaN
     | (Num a, _) \<Rightarrow> Num 0
     | (NaN, _) \<Rightarrow> NaN
     | (_, Num b) \<Rightarrow> if (0 \<le> b) = (x = PosInf) then PosInf else NegInf
     | _ \<Rightarrow> NaN)"

text \<open>\<open>x > y\<close> and \<open>x >= y\<close>: every comparison with \<open>NaN\<close> is false.\<close>

fun jgt :: "jsnum \<Rightarrow> jsnum \<Rightarrow> bool" where
  "jgt (Num a) (Num b) = (b < a)"
| "jgt NaN y = False"
| "jgt x NaN = False"
| "jgt x PosInf = False"
| "jgt NegInf y = False"
| "jgt PosInf y = True"
| "jgt x NegInf = True"

fun jge :: "jsnum \<Rightarrow> jsnum \<Rightarrow> bool" where
  "jge (Num a) (Num b) = (b \<le> a)"
| "jge NaN y = False"
| "jge x NaN = False"
| "jge PosInf y = True"
| "jge x NegInf = True"
| "jge x PosInf = False"
| "jge NegInf y = False"

subsection \<open>\<open>Number.prototype.toFixed\<close>\<close>

text \<open>
  \<open>toFixed f\<close> of a finite number below \<open>10\<^sup>2\<^sup>1\<close> in magnitude prints the integer \<open>n\<close> for
  which \<open>n / 10\<^sup>f\<close> is closest to the number (the larger one of two), with the decimal
  point before the last \<open>f\<close> digits.  From \<open>10\<^sup>2\<^sup>1\<close> on it prints what \<open>Number::toString\<close>
  prints, the shortest digits that read back as the same number; that rendering is not
  fixed digit by digit by the language standard and is the parameter \<open>numToString\<close>.
  The code calls \<open>toFixed\<close> with the literals 0, 1 and 2 only, so the \<open>RangeError\<close> for
  \<open>f > 100\<close> has no branch.
\<close>

definition roundHalfUp :: "rat \<Rightarrow> int" where
  "roundHalfUp r = \<lfloor>r + 1 / 2\<rfloor>"

function digitsOf :: "int \<Rightarrow> string" where
  "digitsOf n = (if n < 10 then [''0123456789'' ! nat n]
                 else digitsOf (n div 10) @ [''0123456789'' ! nat (n mod 10)])"
  by pat_completeness auto
termination
  by (relation "measure nat") auto

declare digitsOf.simps [simp del]

definition fixedDigits :: "nat \<Rightarrow> int \<Rightarrow> string" where
  "fixedDigits f n =
     (let m = digitsOf n;
          m' = (if f \<noteq> 0 \<and> length m \<le> f then replicate (f + 1 - length m) CHR ''0'' @ m else m)
      in if f = 0 then m'
         else take (length m' - f) m' @ ''.'' @ drop (length m' - f) m')"

definition toFixed :: "(rat \<Rightarrow> string) \<Rightarrow> nat \<Rightarrow> jsnum \<Rightarrow> string" where
  "toFixed numToString f x = (case x of
       NaN \<Rightarrow> ''NaN''
     | PosInf \<Rightarrow> ''Infinity''
     | NegInf \<Rightarrow> ''-Infinity''
     | Num r \<Rightarrow>
         (if r < 0 then ''-'' else '''') @
         (if 1000000000000000000000 \<le> \<bar>r\<bar> then numToString \<bar>r\<bar>
          else fixedDigits f (roundHalfUp (\<bar>r\<bar> * 10 ^ f))))"

section \<open>Report payloads\<close>

text \<open>
  The job payload \<open>job.data\<close> is one object.  Its entries are \<open>g.subject.name\<close>,
  \<open>g.subject.code\<close>, \<open>g.subject.credits\<close> and \<open>g.grade\<close> for a result,
  \<open>r.subject\<close>, \<open>r.attendedClasses\<close> and \<open>r.totalClasses\<close> for an attendance
  report.  Numeric fields hold the number the code reads: \<open>subjCredits\<close> and \<open>gGrade\<close>
  are \<open>Number(g.subject.credits)\<close> and \<open>Number(g.grade)\<close>.  A subject code may be
  absent.
\<close>

record subject_info =
  subjName :: string
  subjCode :: "string option"
  subjCredits :: jsnum

record grade_entry =
  gSubject :: subject_info
  gGrade :: jsnum

record attendance_entry =
  rSubject :: subject_info
  attendedClasses :: jsnum
  totalClasses :: jsnum

section \<open>Result report: credits, points, SGPA and letters\<close>

text \<open>The body of \<open>grades.forEach\<close> in \<open>generateResultPdf\<close>, on the pair
  \<open>(totalCredits, earnedPoints)\<close>.\<close>

definition resultStep :: "jsnum \<times> jsnum \<Rightarrow> grade_entry \<Rightarrow> jsnum \<times> jsnum" where
  "resultStep acc g =
     (let totalCredits = fst acc; earnedPoints = snd acc;
          credit = subjCredits (gSubject g);
          gradePoint = gGrade g
      in (jadd totalCredits credit,
          if jgt credit (Num 0)
          then jadd earnedPoints (jmul credit (if jgt gradePoint (Num 0) then gradePoint else Num 0))
          else earnedPoints))"

definition resultTotals :: "grade_entry list \<Rightarrow> jsnum \<times> jsnum" where
  "resultTotals grades = foldl resultStep (Num 0, Num 0) grades"

definition sgpa :: "(rat \<Rightarrow> string) \<Rightarrow> grade_entry list \<Rightarrow> string" where
  "sgpa numToString grades =
     (let totalCredits = fst (resultTotals grades); earnedPoints = snd (resultTotals grades)
      in if jgt totalCredits (Num 0) then toFixed numToString 2 (jdiv earnedPoints totalCredits)
         else ''0.00'')"

definition getGradeLetter :: "jsnum \<Rightarrow> string" where
  "getGradeLetter point =
     (if jge point (Num 10) then ''EX''
      else if jge point (Num 9) then ''A''
      else if jge point (Num 8) then ''B''
      else if jge point (Num 7) then ''C''
      else if jge point (Num 6) then ''D''
      else if jge point (Num 5) then ''E''
      else ''R'')"

section \<open>Attendance report: totals and percentages\<close>

definition attendanceStep :: "jsnum \<times> jsnum \<Rightarrow> attendance_entry \<Rightarrow> jsnum \<times> jsnum" where
  "attendanceStep acc r = (jadd (fst acc) (attendedClasses r), jadd (snd acc) (totalClasses r))"

definition attendanceTotals :: "attendance_entry list \<Rightarrow> jsnum \<times> jsnum" where
  "attendanceTotals records = foldl attendanceStep (Num 0, Num 0) records"

definition overallPercent :: "(rat \<Rightarrow> string) \<Rightarrow> attendance_entry list \<Rightarrow> string" where
  "overallPercent numToString records =
     (let totalAttended = fst (attendanceTotals records);
          totalClasses = snd (attendanceTotals records)
      in if jgt totalClasses (Num 0)
         then toFixed numToString 2 (jmul (jdiv totalAttended totalClasses) (Num 100))
         else ''0.00'')"

definition entryPercent :: "(rat \<Rightarrow> string) \<Rightarrow> attendance_entry \<Rightarrow> string" where
  "entryPercent numToString r =
     (if jgt (totalClasses r) (Num 0)
      then toFixed numToString 1 (jmul (jdiv (attendedClasses r) (totalClasses r)) (Num 100))
      else ''0.0'')"

section \<open>Strings and the three regular expressions\<close>

text \<open>
  A string is the list of the bytes of its UTF-8 encoding, so an ASCII character is one
  byte below 128 and every byte of another character is 128 or more.  The three patterns
  of the code name ASCII characters only; with the \<open>i\<close> flag and no \<open>u\<close> flag a
  character outside ASCII never matches an ASCII letter, so the patterns are matched on
  the bytes.
\<close>

text \<open>The upper-case letter of an ASCII letter; every other byte is left as it is.\<close>

definition toUpperChar :: "char \<Rightarrow> char" where
  "toUpperChar c =
     (case map_of (zip ''abcdefghijklmnopqrstuvwxyz'' ''ABCDEFGHIJKLMNOPQRSTUVWXYZ'') c of
        Some u \<Rightarrow> u
      | None \<Rightarrow> c)"

text \<open>What the \<open>i\<close> flag compares: each character by its canonical form, which for the
  ASCII characters of the patterns is \<open>toUpperChar\<close>.\<close>

definition canonicalize :: "string \<Rightarrow> string" where
  "canonicalize s = map toUpperChar s"

subsection \<open>\<open>String.prototype.toUpperCase\<close>\<close>

text \<open>
  \<open>toUpperCase\<close> maps every code point of the string by the locale-independent upper-case
  mapping of the Unicode Character Database: the simple mappings of \<open>UnicodeData.txt\<close>
  and the unconditional ones of \<open>SpecialCasing.txt\<close>, where one code point may become
  several.  \<open>upperTable\<close> lists, for Unicode 14, every code point above 127 that the mapping
  changes, with its image.
\<close>

definition upperTable :: "(int \<times> int list) list" where
  "upperTable =
     [
      (181, [924]), (223, [83, 83]), (224, [192]), (225, [193]), (226, [194]),
      (227, [195]), (228, [196]), (229, [197]), (230, [198]), (231, [199]),
      (232, [200]), (233, [201]), (234, [202]), (235, [203]), (236, [204]),
      (237, [205]), (238, [206]), (239, [207]), (240, [208]), (241, [209]),
      (242, [210]), (243, [211]), (244, [212]), (245, [213]), (246, [214]),
      (248, [216]), (249, [217]), (250, [218]), (251, [219]), (252, [220]),
      (253, [221]), (254, [222]), (255, [376]), (257, [256]), (259, [258]),
      (261, [260]), (263, [262]), (265, [264]), (267, [266]), (269, [268]),
      (271, [270]), (273, [272]), (275, [274]), (277, [276]), (279, [278]),
      (281, [280]), (283, [282]), (285, [284]), (287, [286]), (289, [288]),
      (291, [290]), (293, [292]), (295, [294]), (297, [296]), (299, [298]),
      (301, [300]), (303, [302]), (305, [73]), (307, [306]), (309, [308]),
      (311, [310]), (314, [313]), (316, [315]), (318, [317]), (320, [319]),
      (322, [321]), (324, [323]), (326, [325]), (328, [327]), (329, [700, 78]),
      (331, [330]), (333, [332]), (335, [334]), (337, [336]), (339, [338]),
      (341, [340]), (343, [342]), (345, [344]), (347, [346]), (349, [348]),
      (351, [350]), (353, [352]), (355, [354]), (357, [356]), (359, [358]),
      (361, [360]), (363, [362]), (365, [364]), (367, [366]), (369, [368]),
      (371, [370]), (373, [372]), (375, [374]), (378, [377]), (380, [379]),
      (382, [381]), (383, [83]), (384, [579]), (387, [386]), (389, [388]),
      (392, [391]), (396, [395]), (402, [401]), (405, [502]), (409, [408]),
      (410, [573]), (414, [544]), (417, [416]), (419, [418]), (421, [420]),
      (424, [423]), (429, [428]), (432, [431]), (436, [435]), (438, [437]),
      (441, [440]), (445, [444]), (447, [503]), (453, [452]), (454, [452]),
      (456, [455]), (457, [455]), (459, [458]), (460, [458]), (462, [461]),
      (464, [463]), (466, [465]), (468, [467]), (470, [469]), (472, [471]),
      (474, [473]), (476, [475]), (477, [398]), (479, [478]), (481, [480]),
      (483, [482]), (485, [484]), (487, [486]), (489, [488]), (491, [490]),
      (493, [492]), (495, [494]), (496, [74, 780]), (498, [497]), (499, [497]),
      (501, [500]), (505, [504]), (507, [506]), (509, [508]), (511, [510]),
      (513, [512]), (515, [514]), (517, [516]), (519, [518]), (521, [520]),
      (523, [522]), (525, [524]), (527, [526]), (529, [528]), (531, [530]),
      (533, [532]), (535, [534]), (537, [536]), (539, [538]), (541, [540]),
      (543, [542]), (547, [546]), (549, [548]), (551, [550]), (553, [552]),
      (555, [554]), (557, [556]), (559, [558]), (561, [560]), (563, [562]),
      (572, [571]), (575, [11390]), (576, [11391]), (578, [577]), (583, [582]),
      (585, [584]), (587, [586]), (589, [588]), (591, [590]), (592, [11375]),
      (593, [11373]), (594, [11376]), (595, [385]), (596, [390]), (598, [393]),
      (599, [394]), (601, [399]), (603, [400]), (604, [42923]), (608, [403]),
      (609, [42924]), (611, [404]), (613, [42893]), (614, [42922]), (616, [407]),
      (617, [406]), (618, [42926]), (619, [11362]), (620, [42925]), (623, [412]),
      (625, [11374]), (626, [413]), (629, [415]), (637, [11364]), (640, [422]),
      (642, [42949]), (643, [425]), (647, [42929]), (648, [430]), (649, [580]),
      (650, [433]), (651, [434]), (652, [581]), (658, [439]), (669, [42930]),
      (670, [42928]), (837, [921]), (881, [880]), (883, [882]), (887, [886]),
      (891, [1021]), (892, [1022]), (893, [1023]), (912, [921, 776, 769]), (940, [902]),
      (941, [904]), (942, [905]), (943, [906]), (944, [933, 776, 769]), (945, [913]),
      (946, [914]), (947, [915]), (948, [916]), (949, [917]), (950, [918]),
      (951, [919]), (952, [920]), (953, [921]), (954, [922]), (955, [923]),
      (956, [924]), (957, [925]), (958, [926]), (959, [927]), (960, [928]),
      (961, [929]), (962, [931]), (963, [931]), (964, [932]), (965, [933]),
      (966, [934]), (967, [935]), (968, [936]), (969, [937]), (970, [938]),
      (971, [939]), (972, [908]), (973, [910]), (974, [911]), (976, [914]),
      (977, [920]), (981, [934]), (982, [928]), (983, [975]), (985, [984]),
      (987, [986]), (989, [988]), (991, [990]), (993, [992]), (995, [994]),
      (997, [996]), (999, [998]), (1001, [1000]), (1003, [1002]), (1005, [1004]),
      (1007, [1006]), (1008, [922]), (1009, [929]), (1010, [1017]), (1011, [895]),
      (1013, [917]), (1016, [1015]), (1019, [1018]), (1072, [1040]), (1073, [1041]),
      (1074, [1042]), (1075, [1043]), (1076, [1044]), (1077, [1045]), (1078, [1046]),
      (1079, [1047]), (1080, [1048]), (1081, [1049]), (1082, [1050]), (1083, [1051]),
      (1084, [1052]), (1085, [1053]), (1086, [1054]), (1087, [1055]), (1088, [1056]),
      (1089, [1057]), (1090, [1058]), (1091, [1059]), (1092, [1060]), (1093, [1061]),
      (1094, [1062]), (1095, [1063]), (1096, [1064]), (1097, [1065]), (1098, [1066]),
      (1099, [1067]), (1100, [1068]), (1101, [1069]), (1102, [1070]), (1103, [1071]),
      (1104, [1024]), (1105, [1025]), (1106, [1026]), (1107, [1027]), (1108, [1028]),
      (1109, [1029]), (1110, [1030]), (1111, [1031]), (1112, [1032]), (1113, [1033]),
      (1114, [1034]), (1115, [1035]), (1116, [1036]), (1117, [1037]), (1118, [1038]),
      (1119, [1039]), (1121, [1120]), (1123, [1122]), (1125, [1124]), (1127, [1126]),
      (1129, [1128]), (1131, [1130]), (1133, [1132]), (1135, [1134]), (1137, [1136]),
      (1139, [1138]), (1141, [1140]), (1143, [1142]), (1145, [1144]), (1147, [1146]),
      (1149, [1148]), (1151, [1150]), (1153, [1152]), (1163, [1162]), (1165, [1164]),
      (1167, [1166]), (1169, [1168]), (1171, [1170]), (1173, [1172]), (1175, [1174]),
      (1177, [1176]), (1179, [1178]), (1181, [1180]), (1183, [1182]), (1185, [1184]),
      (1187, [1186]), (1189, [1188]), (1191, [1190]), (1193, [1192]), (1195, [1194]),
      (1197, [1196]), (1199, [1198]), (1201, [1200]), (1203, [1202]), (1205, [1204]),
      (1207, [1206]), (1209, [1208]), (1211, [1210]), (1213, [1212]), (1215, [1214]),
      (1218, [1217]), (1220, [1219]), (1222, [1221]), (1224, [1223]), (1226, [1225]),
      (1228, [1227]), (1230, [1229]), (1231, [1216]), (1233, [1232]), (1235, [1234]),
      (1237, [1236]), (1239, [1238]), (1241, [1240]), (1243, [1242]), (1245, [1244]),
      (1247, [1246]), (1249, [1248]), (1251, [1250]), (1253, [1252]), (1255, [1254]),
      (1257, [1256]), (1259, [1258]), (1261, [1260]), (1263, [1262]), (1265, [1264]),
      (1267, [1266]), (1269, [1268]), (1271, [1270]), (1273, [1272]), (1275, [1274]),
      (1277, [1276]), (1279, [1278]), (1281, [1280]), (1283, [1282]), (1285, [1284]),
      (1287, [1286]), (1289, [1288]), (1291, [1290]), (1293, [1292]), (1295, [1294]),
      (1297, [1296]), (1299, [1298]), (1301, [1300]), (1303, [1302]), (1305, [1304]),
      (1307, [1306]), (1309, [1308]), (1311, [1310]), (1313, [1312]), (1315, [1314]),
      (1317, [1316]), (1319, [1318]), (1321, [1320]), (1323, [1322]), (1325, [1324]),
      (1327, [1326]), (1377, [1329]), (1378, [1330]), (1379, [1331]), (1380, [1332]),
      (1381, [1333]), (1382, [1334]), (1383, [1335]), (1384, [1336]), (1385, [1337]),
      (1386, [1338]), (1387, [1339]), (1388, [1340]), (1389, [1341]), (1390, [1342]),
      (1391, [1343]), (1392, [1344]), (1393, [1345]), (1394, [1346]), (1395, [1347]),
      (1396, [1348]), (1397, [1349]), (1398, [1350]), (1399, [1351]), (1400, [1352]),
      (1401, [1353]), (1402, [1354]), (1403, [1355]), (1404, [1356]), (1405, [1357]),
      (1406, [1358]), (1407, [1359]), (1408, [1360]), (1409, [1361]), (1410, [1362]),
      (1411, [1363]), (1412, [1364]), (1413, [1365]), (1414, [1366]), (1415, [1333, 1362]),
      (4304, [7312]), (4305, [7313]), (4306, [7314]), (4307, [7315]), (4308, [7316]),
      (4309, [7317]), (4310, [7318]), (4311, [7319]), (4312, [7320]), (4313, [7321]),
      (4314, [7322]), (4315, [7323]), (4316, [7324]), (4317, [7325]), (4318, [7326]),
      (4319, [7327]), (4320, [7328]), (4321, [7329]), (4322, [7330]), (4323, [7331]),
      (4324, [7332]), (4325, [7333]), (4326, [7334]), (4327, [7335]), (4328, [7336]),
      (4329, [7337]), (4330, [7338]), (4331, [7339]), (4332, [7340]), (4333, [7341]),
      (4334, [7342]), (4335, [7343]), (4336, [7344]), (4337, [7345]), (4338, [7346]),
      (4339, [7347]), (4340, [7348]), (4341, [7349]), (4342, [7350]), (4343, [7351]),
      (4344, [7352]), (4345, [7353]), (4346, [7354]), (4349, [7357]), (4350, [7358]),
      (4351, [7359]), (5112, [5104]), (5113, [5105]), (5114, [5106]), (5115, [5107]),
      (5116, [5108]), (5117, [5109]), (7296, [1042]), (7297, [1044]), (7298, [1054]),
      (7299, [1057]), (7300, [1058]), (7301, [1058]), (7302, [1066]), (7303, [1122]),
      (7304, [42570]), (7545, [42877]), (7549, [11363]), (7566, [42950]), (7681, [7680]),
      (7683, [7682]), (7685, [7684]), (7687, [7686]), (7689, [7688]), (7691, [7690]),
      (7693, [7692]), (7695, [7694]), (7697, [7696]), (7699, [7698]), (7701, [7700]),
      (7703, [7702]), (7705, [7704]), (7707, [7706]), (7709, [7708]), (7711, [7710]),
      (7713, [7712]), (7715, [7714]), (7717, [7716]), (7719, [7718]), (7721, [7720]),
      (7723, [7722]), (7725, [7724]), (7727, [7726]), (7729, [7728]), (7731, [7730]),
      (7733, [7732]), (7735, [7734]), (7737, [7736]), (7739, [7738]), (7741, [7740]),
      (7743, [7742]), (7745, [7744]), (7747, [7746]), (7749, [7748]), (7751, [7750]),
      (7753, [7752]), (7755, [7754]), (7757, [7756]), (7759, [7758]), (7761, [7760]),
      (7763, [7762]), (7765, [7764]), (7767, [7766]), (7769, [7768]), (7771, [7770]),
      (7773, [7772]), (7775, [7774]), (7777, [7776]), (7779, [7778]), (7781, [7780]),
      (7783, [7782]), (7785, [7784]), (7787, [7786]), (7789, [7788]), (7791, [7790]),
      (7793, [7792]), (7795, [7794]), (7797, [7796]), (7799, [7798]), (7801, [7800]),
      (7803, [7802]), (7805, [7804]), (7807, [7806]), (7809, [7808]), (7811, [7810]),
      (7813, [7812]), (7815, [7814]), (7817, [7816]), (7819, [7818]), (7821, [7820]),
      (7823, [7822]), (7825, [7824]), (7827, [7826]), (7829, [7828]), (7830, [72, 817]),
      (7831, [84, 776]), (7832, [87, 778]), (7833, [89, 778]), (7834, [65, 702]), (7835, [7776]),
      (7841, [7840]), (7843, [7842]), (7845, [7844]), (7847, [7846]), (7849, [7848]),
      (7851, [7850]), (7853, [7852]), (7855, [7854]), (7857, [7856]), (7859, [7858]),
      (7861, [7860]), (7863, [7862]), (7865, [7864]), (7867, [7866]), (7869, [7868]),
      (7871, [7870]), (7873, [7872]), (7875, [7874]), (7877, [7876]), (7879, [7878]),
      (7881, [7880]), (7883, [7882]), (7885, [7884]), (7887, [7886]), (7889, [7888]),
      (7891, [7890]), (7893, [7892]), (7895, [7894]), (7897, [7896]), (7899, [7898]),
      (7901, [7900]), (7903, [7902]), (7905, [7904]), (7907, [7906]), (7909, [7908]),
      (7911, [7910]), (7913, [7912]), (7915, [7914]), (7917, [7916]), (7919, [7918]),
      (7921, [7920]), (7923, [7922]), (7925, [7924]), (7927, [7926]), (7929, [7928]),
      (7931, [7930]), (7933, [7932]), (7935, [7934]), (7936, [7944]), (7937, [7945]),
      (7938, [7946]), (7939, [7947]), (7940, [7948]), (7941, [7949]), (7942, [7950]),
      (7943, [7951]), (7952, [7960]), (7953, [7961]), (7954, [7962]), (7955, [7963]),
      (7956, [7964]), (7957, [7965]), (7968, [7976]), (7969, [7977]), (7970, [7978]),
      (7971, [7979]), (7972, [7980]), (7973, [7981]), (7974, [7982]), (7975, [7983]),
      (7984, [7992]), (7985, [7993]), (7986, [7994]), (7987, [7995]), (7988, [7996]),
      (7989, [7997]), (7990, [7998]), (7991, [7999]), (8000, [8008]), (8001, [8009]),
      (8002, [8010]), (8003, [8011]), (8004, [8012]), (8005, [8013]), (8016, [933, 787]),
      (8017, [8025]), (8018, [933, 787, 768]), (8019, [8027]), (8020, [933, 787, 769]), (8021, [8029]),
      (8022, [933, 787, 834]), (8023, [8031]), (8032, [8040]), (8033, [8041]), (8034, [8042]),
      (8035, [8043]), (8036, [8044]), (8037, [8045]), (8038, [8046]), (8039, [8047]),
      (8048, [8122]), (8049, [8123]), (8050, [8136]), (8051, [8137]), (8052, [8138]),
      (8053, [8139]), (8054, [8154]), (8055, [8155]), (8056, [8184]), (8057, [8185]),
      (8058, [8170]), (8059, [8171]), (8060, [8186]), (8061, [8187]), (8064, [7944, 921]),
      (8065, [7945, 921]), (8066, [7946, 921]), (8067, [7947, 921]), (8068, [7948, 921]), (8069, [7949, 921]),
      (8070, [7950, 921]), (8071, [7951, 921]), (8072, [7944, 921]), (8073, [7945, 921]), (8074, [7946, 921]),
      (8075, [7947, 921]), (8076, [7948, 921]), (8077, [7949, 921]), (8078, [7950, 921]), (8079, [7951, 921]),
      (8080, [7976, 921]), (8081, [7977, 921]), (8082, [7978, 921]), (8083, [7979, 921]), (8084, [7980, 921]),
      (8085, [7981, 921]), (8086, [7982, 921]), (8087, [7983, 921]), (8088, [7976, 921]), (8089, [7977, 921]),
      (8090, [7978, 921]), (8091, [7979, 921]), (8092, [7980, 921]), (8093, [7981, 921]), (8094, [7982, 921]),
      (8095, [7983, 921]), (8096, [8040, 921]), (8097, [8041, 921]), (8098, [8042, 921]), (8099, [8043, 921]),
      (8100, [8044, 921]), (8101, [8045, 921]), (8102, [8046, 921]), (8103, [8047, 921]), (8104, [8040, 921]),
      (8105, [8041, 921]), (8106, [8042, 921]), (8107, [8043, 921]), (8108, [8044, 921]), (8109, [8045, 921]),
      (8110, [8046, 921]), (8111, [8047, 921]), (8112, [8120]), (8113, [8121]), (8114, [8122, 921]),
      (8115, [913, 921]), (8116, [902, 921]), (8118, [913, 834]), (8119, [913, 834, 921]), (8124, [913, 921]),
      (8126, [921]), (8130, [8138, 921]), (8131, [919, 921]), (8132, [905, 921]), (8134, [919, 834]),
      (8135, [919, 834, 921]), (8140, [919, 921]), (8144, [8152]), (8145, [8153]), (8146, [921, 776, 768]),
      (8147, [921, 776, 769]), (8150, [921, 834]), (8151, [921, 776, 834]), (8160, [8168]), (8161, [8169]),
      (8162, [933, 776, 768]), (8163, [933, 776, 769]), (8164, [929, 787]), (8165, [8172]), (8166, [933, 834]),
      (8167, [933, 776, 834]), (8178, [8186, 921]), (8179, [937, 921]), (8180, [911, 921]), (8182, [937, 834]),
      (8183, [937, 834, 921]), (8188, [937, 921]), (8526, [8498]), (8560, [8544]), (8561, [8545]),
      (8562, [8546]), (8563, [8547]), (8564, [8548]), (8565, [8549]), (8566, [8550]),
      (8567, [8551]), (8568, [8552]), (8569, [8553]), (8570, [8554]), (8571, [8555]),
      (8572, [8556]), (8573, [8557]), (8574, [8558]), (8575, [8559]), (8580, [8579]),
      (9424, [9398]), (9425, [9399]), (9426, [9400]), (9427, [9401]), (9428, [9402]),
      (9429, [9403]), (9430, [9404]), (9431, [9405]), (9432, [9406]), (9433, [9407]),
      (9434, [9408]), (9435, [9409]), (9436, [9410]), (9437, [9411]), (9438, [9412]),
      (9439, [9413]), (9440, [9414]), (9441, [9415]), (9442, [9416]), (9443, [9417]),
      (9444, [9418]), (9445, [9419]), (9446, [9420]), (9447, [9421]), (9448, [9422]),
      (9449, [9423]), (11312, [11264]), (11313, [11265]), (11314, [11266]), (11315, [11267]),
      (11316, [11268]), (11317, [11269]), (11318, [11270]), (11319, [11271]), (11320, [11272]),
      (11321, [11273]), (11322, [11274]), (11323, [11275]), (11324, [11276]), (11325, [11277]),
      (11326, [11278]), (11327, [11279]), (11328, [11280]), (11329, [11281]), (11330, [11282]),
      (11331, [11283]), (11332, [11284]), (11333, [11285]), (11334, [11286]), (11335, [11287]),
      (11336, [11288]), (11337, [11289]), (11338, [11290]), (11339, [11291]), (11340, [11292]),
      (11341, [11293]), (11342, [11294]), (11343, [11295]), (11344, [11296]), (11345, [11297]),
      (11346, [11298]), (11347, [11299]), (11348, [11300]), (11349, [11301]), (11350, [11302]),
      (11351, [11303]), (11352, [11304]), (11353, [11305]), (11354, [11306]), (11355, [11307]),
      (11356, [11308]), (11357, [11309]), (11358, [11310]), (11359, [11311]), (11361, [11360]),
      (11365, [570]), (11366, [574]), (11368, [11367]), (11370, [11369]), (11372, [11371]),
      (11379, [11378]), (11382, [11381]), (11393, [11392]), (11395, [11394]), (11397, [11396]),
      (11399, [11398]), (11401, [11400]), (11403, [11402]), (11405, [11404]), (11407, [11406]),
      (11409, [11408]), (11411, [11410]), (11413, [11412]), (11415, [11414]), (11417, [11416]),
      (11419, [11418]), (11421, [11420]), (11423, [11422]), (11425, [11424]), (11427, [11426]),
      (11429, [11428]), (11431, [11430]), (11433, [11432]), (11435, [11434]), (11437, [11436]),
      (11439, [11438]), (11441, [11440]), (11443, [11442]), (11445, [11444]), (11447, [11446]),
      (11449, [11448]), (11451, [11450]), (11453, [11452]), (11455, [11454]), (11457, [11456]),
      (11459, [11458]), (11461, [11460]), (11463, [11462]), (11465, [11464]), (11467, [11466]),
      (11469, [11468]), (11471, [11470]), (11473, [11472]), (11475, [11474]), (11477, [11476]),
      (11479, [11478]), (11481, [11480]), (11483, [11482]), (11485, [11484]), (11487, [11486]),
      (11489, [11488]), (11491, [11490]), (11500, [11499]), (11502, [11501]), (11507, [11506]),
      (11520, [4256]), (11521, [4257]), (11522, [4258]), (11523, [4259]), (11524, [4260]),
      (11525, [4261]), (11526, [4262]), (11527, [4263]), (11528, [4264]), (11529, [4265]),
      (11530, [4266]), (11531, [4267]), (11532, [4268]), (11533, [4269]), (11534, [4270]),
      (11535, [4271]), (11536, [4272]), (11537, [4273]), (11538, [4274]), (11539, [4275]),
      (11540, [4276]), (11541, [4277]), (11542, [4278]), (11543, [4279]), (11544, [4280]),
      (11545, [4281]), (11546, [4282]), (11547, [4283]), (11548, [4284]), (11549, [4285]),
      (11550, [4286]), (11551, [4287]), (11552, [4288]), (11553, [4289]), (11554, [4290]),
      (11555, [4291]), (11556, [4292]), (11557, [4293]), (11559, [4295]), (11565, [4301]),
      (42561, [42560]), (42563, [42562]), (42565, [42564]), (42567, [42566]), (42569, [42568]),
      (42571, [42570]), (42573, [42572]), (42575, [42574]), (42577, [42576]), (42579, [42578]),
      (42581, [42580]), (42583, [42582]), (42585, [42584]), (42587, [42586]), (42589, [42588]),
      (42591, [42590]), (42593, [42592]), (42595, [42594]), (42597, [42596]), (42599, [42598]),
      (42601, [42600]), (42603, [42602]), (42605, [42604]), (42625, [42624]), (42627, [42626]),
      (42629, [42628]), (42631, [42630]), (42633, [42632]), (42635, [42634]), (42637, [42636]),
      (42639, [42638]), (42641, [42640]), (42643, [42642]), (42645, [42644]), (42647, [42646]),
      (42649, [42648]), (42651, [42650]), (42787, [42786]), (42789, [42788]), (42791, [42790]),
      (42793, [42792]), (42795, [42794]), (42797, [42796]), (42799, [42798]), (42803, [42802]),
      (42805, [42804]), (42807, [42806]), (42809, [42808]), (42811, [42810]), (42813, [42812]),
      (42815, [42814]), (42817, [42816]), (42819, [42818]), (42821, [42820]), (42823, [42822]),
      (42825, [42824]), (42827, [42826]), (42829, [42828]), (42831, [42830]), (42833, [42832]),
      (42835, [42834]), (42837, [42836]), (42839, [42838]), (42841, [42840]), (42843, [42842]),
      (42845, [42844]), (42847, [42846]), (42849, [42848]), (42851, [42850]), (42853, [42852]),
      (42855, [42854]), (42857, [42856]), (42859, [42858]), (42861, [42860]), (42863, [42862]),
      (42874, [42873]), (42876, [42875]), (42879, [42878]), (42881, [42880]), (42883, [42882]),
      (42885, [42884]), (42887, [42886]), (42892, [42891]), (42897, [42896]), (42899, [42898]),
      (42900, [42948]), (42903, [42902]), (42905, [42904]), (42907, [42906]), (42909, [42908]),
      (42911, [42910]), (42913, [42912]), (42915, [42914]), (42917, [42916]), (42919, [42918]),
      (42921, [42920]), (42933, [42932]), (42935, [42934]), (42937, [42936]), (42939, [42938]),
      (42941, [42940]), (42943, [42942]), (42945, [42944]), (42947, [42946]), (42952, [42951]),
      (42954, [42953]), (42961, [42960]), (42967, [42966]), (42969, [42968]), (42998, [42997]),
      (43859, [42931]), (43888, [5024]), (43889, [5025]), (43890, [5026]), (43891, [5027]),
      (43892, [5028]), (43893, [5029]), (43894, [5030]), (43895, [5031]), (43896, [5032]),
      (43897, [5033]), (43898, [5034]), (43899, [5035]), (43900, [5036]), (43901, [5037]),
      (43902, [5038]), (43903, [5039]), (43904, [5040]), (43905, [5041]), (43906, [5042]),
      (43907, [5043]), (43908, [5044]), (43909, [5045]), (43910, [5046]), (43911, [5047]),
      (43912, [5048]), (43913, [5049]), (43914, [5050]), (43915, [5051]), (43916, [5052]),
      (43917, [5053]), (43918, [5054]), (43919, [5055]), (43920, [5056]), (43921, [5057]),
      (43922, [5058]), (43923, [5059]), (43924, [5060]), (43925, [5061]), (43926, [5062]),
      (43927, [5063]), (43928, [5064]), (43929, [5065]), (43930, [5066]), (43931, [5067]),
      (43932, [5068]), (43933, [5069]), (43934, [5070]), (43935, [5071]), (43936, [5072]),
      (43937, [5073]), (43938, [5074]), (43939, [5075]), (43940, [5076]), (43941, [5077]),
      (43942, [5078]), (43943, [5079]), (43944, [5080]), (43945, [5081]), (43946, [5082]),
      (43947, [5083]), (43948, [5084]), (43949, [5085]), (43950, [5086]), (43951, [5087]),
      (43952, [5088]), (43953, [5089]), (43954, [5090]), (43955, [5091]), (43956, [5092]),
      (43957, [5093]), (43958, [5094]), (43959, [5095]), (43960, [5096]), (43961, [5097]),
      (43962, [5098]), (43963, [5099]), (43964, [5100]), (43965, [5101]), (43966, [5102]),
      (43967, [5103]), (64256, [70, 70]), (64257, [70, 73]), (64258, [70, 76]), (64259, [70, 70, 73]),
      (64260, [70, 70, 76]), (64261, [83, 84]), (64262, [83, 84]), (64275, [1348, 1350]), (64276, [1348, 1333]),
      (64277, [1348, 1339]), (64278, [1358, 1350]), (64279, [1348, 1341]), (65345, [65313]), (65346, [65314]),
      (65347, [65315]), (65348, [65316]), (65349, [65317]), (65350, [65318]), (65351, [65319]),
      (65352, [65320]), (65353, [65321]), (65354, [65322]), (65355, [65323]), (65356, [65324]),
      (65357, [65325]), (65358, [65326]), (65359, [65327]), (65360, [65328]), (65361, [65329]),
      (65362, [65330]), (65363, [65331]), (65364, [65332]), (65365, [65333]), (65366, [65334]),
      (65367, [65335]), (65368, [65336]), (65369, [65337]), (65370, [65338]), (66600, [66560]),
      (66601, [66561]), (66602, [66562]), (66603, [66563]), (66604, [66564]), (66605, [66565]),
      (66606, [66566]), (66607, [66567]), (66608, [66568]), (66609, [66569]), (66610, [66570]),
      (66611, [66571]), (66612, [66572]), (66613, [66573]), (66614, [66574]), (66615, [66575]),
      (66616, [66576]), (66617, [66577]), (66618, [66578]), (66619, [66579]), (66620, [66580]),
      (66621, [66581]), (66622, [66582]), (66623, [66583]), (66624, [66584]), (66625, [66585]),
      (66626, [66586]), (66627, [66587]), (66628, [66588]), (66629, [66589]), (66630, [66590]),
      (66631, [66591]), (66632, [66592]), (66633, [66593]), (66634, [66594]), (66635, [66595]),
      (66636, [66596]), (66637, [66597]), (66638, [66598]), (66639, [66599]), (66776, [66736]),
      (66777, [66737]), (66778, [66738]), (66779, [66739]), (66780, [66740]), (66781, [66741]),
      (66782, [66742]), (66783, [66743]), (66784, [66744]), (66785, [66745]), (66786, [66746]),
      (66787, [66747]), (66788, [66748]), (66789, [66749]), (66790, [66750]), (66791, [66751]),
      (66792, [66752]), (66793, [66753]), (66794, [66754]), (66795, [66755]), (66796, [66756]),
      (66797, [66757]), (66798, [66758]), (66799, [66759]), (66800, [66760]), (66801, [66761]),
      (66802, [66762]), (66803, [66763]), (66804, [66764]), (66805, [66765]), (66806, [66766]),
      (66807, [66767]), (66808, [66768]), (66809, [66769]), (66810, [66770]), (66811, [66771]),
      (66967, [66928]), (66968, [66929]), (66969, [66930]), (66970, [66931]), (66971, [66932]),
      (66972, [66933]), (66973, [66934]), (66974, [66935]), (66975, [66936]), (66976, [66937]),
      (66977, [66938]), (66979, [66940]), (66980, [66941]), (66981, [66942]), (66982, [66943]),
      (66983, [66944]), (66984, [66945]), (66985, [66946]), (66986, [66947]), (66987, [66948]),
      (66988, [66949]), (66989, [66950]), (66990, [66951]), (66991, [66952]), (66992, [66953]),
      (66993, [66954]), (66995, [66956]), (66996, [66957]), (66997, [66958]), (66998, [66959]),
      (66999, [66960]), (67000, [66961]), (67001, [66962]), (67003, [66964]), (67004, [66965]),
      (68800, [68736]), (68801, [68737]), (68802, [68738]), (68803, [68739]), (68804, [68740]),
      (68805, [68741]), (68806, [68742]), (68807, [68743]), (68808, [68744]), (68809, [68745]),
      (68810, [68746]), (68811, [68747]), (68812, [68748]), (68813, [68749]), (68814, [68750]),
      (68815, [68751]), (68816, [68752]), (68817, [68753]), (68818, [68754]), (68819, [68755]),
      (68820, [68756]), (68821, [68757]), (68822, [68758]), (68823, [68759]), (68824, [68760]),
      (68825, [68761]), (68826, [68762]), (68827, [68763]), (68828, [68764]), (68829, [68765]),
      (68830, [68766]), (68831, [68767]), (68832, [68768]), (68833, [68769]), (68834, [68770]),
      (68835, [68771]), (68836, [68772]), (68837, [68773]), (68838, [68774]), (68839, [68775]),
      (68840, [68776]), (68841, [68777]), (68842, [68778]), (68843, [68779]), (68844, [68780]),
      (68845, [68781]), (68846, [68782]), (68847, [68783]), (68848, [68784]), (68849, [68785]),
      (68850, [68786]), (71872, [71840]), (71873, [71841]), (71874, [71842]), (71875, [71843]),
      (71876, [71844]), (71877, [71845]), (71878, [71846]), (71879, [71847]), (71880, [71848]),
      (71881, [71849]), (71882, [71850]), (71883, [71851]), (71884, [71852]), (71885, [71853]),
      (71886, [71854]), (71887, [71855]), (71888, [71856]), (71889, [71857]), (71890, [71858]),
      (71891, [71859]), (71892, [71860]), (71893, [71861]), (71894, [71862]), (71895, [71863]),
      (71896, [71864]), (71897, [71865]), (71898, [71866]), (71899, [71867]), (71900, [71868]),
      (71901, [71869]), (71902, [71870]), (71903, [71871]), (93792, [93760]), (93793, [93761]),
      (93794, [93762]), (93795, [93763]), (93796, [93764]), (93797, [93765]), (93798, [93766]),
      (93799, [93767]), (93800, [93768]), (93801, [93769]), (93802, [93770]), (93803, [93771]),
      (93804, [93772]), (93805, [93773]), (93806, [93774]), (93807, [93775]), (93808, [93776]),
      (93809, [93777]), (93810, [93778]), (93811, [93779]), (93812, [93780]), (93813, [93781]),
      (93814, [93782]), (93815, [93783]), (93816, [93784]), (93817, [93785]), (93818, [93786]),
      (93819, [93787]), (93820, [93788]), (93821, [93789]), (93822, [93790]), (93823, [93791]),
      (125218, [125184]), (125219, [125185]), (125220, [125186]), (125221, [125187]), (125222, [125188]),
      (125223, [125189]), (125224, [125190]), (125225, [125191]), (125226, [125192]), (125227, [125193]),
      (125228, [125194]), (125229, [125195]), (125230, [125196]), (125231, [125197]), (125232, [125198]),
      (125233, [125199]), (125234, [125200]), (125235, [125201]), (125236, [125202]), (125237, [125203]),
      (125238, [125204]), (125239, [125205]), (125240, [125206]), (125241, [125207]), (125242, [125208]),
      (125243, [125209]), (125244, [125210]), (125245, [125211]), (125246, [125212]), (125247, [125213]),
      (125248, [125214]), (125249, [125215]), (125250, [125216]), (125251, [125217])]"

definition upperCodePoint :: "int \<Rightarrow> int list" where
  "upperCodePoint cp = (case map_of upperTable cp of Some u \<Rightarrow> u | None \<Rightarrow> [cp])"

text \<open>The payload of the continuation byte at position \<open>i\<close> of \<open>cs\<close>, when there is one.\<close>

definition continuation :: "string \<Rightarrow> nat \<Rightarrow> int option" where
  "continuation cs i =
     (if i < length cs \<and> digit7 (cs ! i) \<and> \<not> digit6 (cs ! i)
      then Some (of_char (cs ! i) - 128) else None)"

text \<open>The code point that the lead byte \<open>c\<close> encodes with the bytes after it, and the
  number of those bytes; \<open>None\<close> when the bytes are not the encoding of a code point
  (a surrogate included).\<close>

definition decodeHead :: "char \<Rightarrow> string \<Rightarrow> (int \<times> nat) option" where
  "decodeHead c cs =
     (let b = of_char c :: int in
      if 192 \<le> b \<and> b < 224
      then (case continuation cs 0 of
              Some c1 \<Rightarrow>
                (let cp = (b - 192) * 64 + c1 in if 128 \<le> cp then Some (cp, 1) else None)
            | None \<Rightarrow> None)
      else if 224 \<le> b \<and> b < 240
      then (case (continuation cs 0, continuation cs 1) of
              (Some c1, Some c2) \<Rightarrow>
                (let cp = (b - 224) * 4096 + c1 * 64 + c2
                 in if 2048 \<le> cp \<and> \<not> (55296 \<le> cp \<and> cp < 57344) then Some (cp, 2) else None)
            | _ \<Rightarrow> None)
      else if 240 \<le> b \<and> b < 248
      then (case (continuation cs 0, continuation cs 1, continuation cs 2) of
              (Some c1, Some c2, Some c3) \<Rightarrow>
                (let cp = (b - 240) * 262144 + c1 * 4096 + c2 * 64 + c3
                 in if 65536 \<le> cp \<and> cp < 1114112 then Some (cp, 3) else None)
            | _ \<Rightarrow> None)
      else None)"

definition encodeUtf8 :: "int \<Rightarrow> string" where
  "encodeUtf8 cp =
     map char_of
       (if cp < 128 then [cp]
        else if cp < 2048 then [192 + cp div 64, 128 + cp mod 64]
        else if cp < 65536 then [224 + cp div 4096, 128 + cp div 64 mod 64, 128 + cp mod 64]
        else [240 + cp div 262144, 128 + cp div 4096 mod 64, 128 + cp div 64 mod 64,
              128 + cp mod 64])"

text \<open>A byte that starts no code point (the half of a surrogate pair has no other
  representation) is left as it is, as \<open>toUpperCase\<close> leaves a lone surrogate.\<close>

function toUpperCase :: "string \<Rightarrow> string" where
  "toUpperCase [] = []"
| "toUpperCase (c # cs) =
     (if \<not> digit7 c then toUpperChar c # toUpperCase cs
      else (case decodeHead c cs of
              Some (cp, k) \<Rightarrow> concat (map encodeUtf8 (upperCodePoint cp)) @ toUpperCase (drop k cs)
            | None \<Rightarrow> c # toUpperCase cs))"
  by pat_completeness auto
termination
  by (relation "measure length") auto

declare toUpperCase.simps [simp del]

text \<open>\<open>s.includes(t)\<close>\<close>

fun str_includes :: "string \<Rightarrow> string \<Rightarrow> bool" where
  "str_includes [] t = (t = [])"
| "str_includes (c # cs) t = (take (length t) (c # cs) = t \<or> str_includes cs t)"

text \<open>\<open>s.replace(pat, rep)\<close> with a string pattern: the first occurrence only.  The
  replacement used by the code has no \<open>$\<close> in it.\<close>

fun replaceFirst :: "string \<Rightarrow> string \<Rightarrow> string \<Rightarrow> string" where
  "replaceFirst pat rep [] = (if pat = [] then rep else [])"
| "replaceFirst pat rep (c # cs) =
     (if take (length pat) (c # cs) = pat then rep @ drop (length pat) (c # cs)
      else c # replaceFirst pat rep cs)"

definition isSeparator :: "char \<Rightarrow> bool" where
  "isSeparator c = (c \<in> set ''-_ '')"

definition isDigit14 :: "char \<Rightarrow> bool" where
  "isDigit14 c = (c \<in> set ''1234'')"

definition isDigit13 :: "char \<Rightarrow> bool" where
  "isDigit13 c = (c \<in> set ''123'')"

definition isLetter :: "char \<Rightarrow> bool" where
  "isLetter c = (c \<in> set ''abcdefghijklmnopqrstuvwxyzABCDEFGHIJKLMNOPQRSTUVWXYZ'')"

text \<open>The common tail \<open>[-_ ]?([d])\<close> of the three patterns, matched at the head of a
  string; the result is the captured digit.  A separator is not a digit, so giving the
  optional separator back never helps.\<close>

definition sepDigit :: "(char \<Rightarrow> bool) \<Rightarrow> string \<Rightarrow> char option" where
  "sepDigit isDigit s =
     (case s of
        [] \<Rightarrow> None
      | c # cs \<Rightarrow>
          if isSeparator c
          then (case cs of [] \<Rightarrow> None | d # _ \<Rightarrow> if isDigit d then Some d else None)
          else if isDigit c then Some c else None)"

definition orElse :: "'a option \<Rightarrow> 'a option \<Rightarrow> 'a option" where
  "orElse a b = (case a of Some x \<Rightarrow> Some x | None \<Rightarrow> b)"

text \<open>\<open>semesterId.match(/([EP])[-_ ]?([1-4])/i)\<close>: the leftmost match, as the pair of its
  two captures.\<close>

fun yearMatch :: "string \<Rightarrow> (char \<times> char) option" where
  "yearMatch [] = None"
| "yearMatch (c # cs) =
     (if toUpperChar c \<in> set ''EP''
      then (case sepDigit isDigit14 cs of Some d \<Rightarrow> Some (c, d) | None \<Rightarrow> yearMatch cs)
      else yearMatch cs)"

text \<open>\<open>semesterId.match(/S(?:em(?:ester)?)?[-_ ]?([1-3])/i)\<close>: after the \<open>S\<close> the longest
  alternative is tried first.\<close>

definition semAfterS :: "string \<Rightarrow> char option" where
  "semAfterS r =
     orElse
       (if canonicalize (take 2 r) = ''EM''
        then orElse
               (if canonicalize (take 5 (drop 2 r)) = ''ESTER''
                then sepDigit isDigit13 (drop 7 r) else None)
               (sepDigit isDigit13 (drop 2 r))
        else None)
       (sepDigit isDigit13 r)"

fun semMatch :: "string \<Rightarrow> char option" where
  "semMatch [] = None"
| "semMatch (c # cs) =
     (if toUpperChar c = CHR ''S''
      then (case semAfterS cs of Some d \<Rightarrow> Some d | None \<Rightarrow> semMatch cs)
      else semMatch cs)"

text \<open>\<open>code.match(/^[a-zA-Z]+[-_ ]?([1-4])/)\<close>: anchored at the start.  What follows a
  shorter run of letters is a letter, so only the whole run can be followed by the tail.\<close>

definition codeMatch :: "string \<Rightarrow> char option" where
  "codeMatch code =
     (if takeWhile isLetter code = [] then None
      else sepDigit isDigit14 (dropWhile isLetter code))"

section \<open>Title of the result report\<close>

text \<open>The title logic of \<open>generateResultPdf\<close>.  \<open>yearStr\<close> and \<open>semStr\<close> start empty;
  an empty string is falsy.\<close>

definition resultTitle :: "string \<Rightarrow> grade_entry list \<Rightarrow> string" where
  "resultTitle semesterId grades =
     (let yearStr0 = (case yearMatch semesterId of
                        Some (l, d) \<Rightarrow> toUpperCase [l] @ [d]
                      | None \<Rightarrow> []);
          semStr = (case semMatch semesterId of Some d \<Rightarrow> [d] | None \<Rightarrow> []);
          yearStr =
            (if yearStr0 = [] \<and> grades \<noteq> []
             then (case subjCode (gSubject (hd grades)) of
                     None \<Rightarrow> yearStr0
                   | Some code \<Rightarrow>
                       if code = [] then yearStr0
                       else (case codeMatch code of
                               Some d \<Rightarrow> ''E'' @ [d]
                             | None \<Rightarrow> yearStr0))
             else yearStr0)
      in if yearStr \<noteq> [] \<and> semStr \<noteq> []
         then yearStr @ '' SEMESTER-'' @ semStr @ '' RESULTS''
         else replaceFirst '' RESULTS RESULTS'' '' RESULTS'' (toUpperCase semesterId @ '' RESULTS''))"

section \<open>The patterns, in the words of the description\<close>

text \<open>
  What it means for a pattern to be found, said without a matcher: the string splits into
  a prefix, the parts of the pattern and a rest.  \<open>yearCodeAt pre s l d\<close> is an occurrence
  of the year code after the prefix \<open>pre\<close>, with letter \<open>l\<close> and digit \<open>d\<close>; \<open>semesterAt\<close>
  the same for the semester pattern; \<open>codePattern c d\<close> says that the subject code \<open>c\<close>
  starts with letters, an optional separator and the digit \<open>d\<close>.  The matchers above are
  compared with these.
\<close>

definition optionalSeparator :: "string \<Rightarrow> bool" where
  "optionalSeparator sep = (case sep of [] \<Rightarrow> True | [c] \<Rightarrow> isSeparator c | _ \<Rightarrow> False)"

definition yearCodeAt :: "string \<Rightarrow> string \<Rightarrow> char \<Rightarrow> char \<Rightarrow> bool" where
  "yearCodeAt pre s l d =
     (\<exists>sep post. s = pre @ [l] @ sep @ [d] @ post \<and>
        toUpperChar l \<in> set ''EP'' \<and> optionalSeparator sep \<and> isDigit14 d)"

definition semesterAt :: "string \<Rightarrow> string \<Rightarrow> char \<Rightarrow> bool" where
  "semesterAt pre s n =
     (\<exists>S word sep post. s = pre @ [S] @ word @ sep @ [n] @ post \<and>
        toUpperChar S = CHR ''S'' \<and> canonicalize word \<in> set ['''', ''EM'', ''EMESTER''] \<and>
        optionalSeparator sep \<and> isDigit13 n)"

definition codePattern :: "string \<Rightarrow> char \<Rightarrow> bool" where
  "codePattern c d =
     (\<exists>letters sep rest. c = letters @ sep @ [d] @ rest \<and>
        letters \<noteq> [] \<and> (\<forall>x\<in>set letters. isLetter x) \<and> optionalSeparator sep \<and> isDigit14 d)"

section \<open>The documents handed to the browser\<close>

text \<open>
  The HTML string given to \<open>page.setContent\<close> is a fixed markup with values filled in.
  The model keeps the filled-in values, in the order of the template, and leaves the
  markup out: a document is the record of what the template interpolates.
\<close>

record result_row =
  rowName :: string
  rowCredits :: string
  rowLetter :: string

record result_doc =
  rdWatermark :: string
  rdUsername :: string
  rdBranch :: string
  rdName :: string
  rdCampus :: string
  rdTitle :: string
  rdRows :: "result_row list"
  rdTotalCredits :: string
  rdEarnedPoints :: string
  rdSgpa :: string

record attendance_row =
  arName :: string
  arCode :: "string option"
  arAttended :: jsnum
  arTotal :: jsnum
  arPercent :: string

record attendance_doc =
  adWatermark :: string
  adUsername :: string
  adBranch :: string
  adName :: string
  adCampus :: string
  adSemester :: string
  adRows :: "attendance_row list"
  adTotalAttended :: jsnum
  adTotalClasses :: jsnum
  adOverallPercent :: string
  adGeneratedOn :: string

datatype page_content = ResultHtml result_doc | AttendanceHtml attendance_doc

section \<open>Jobs, mail, errors and the outside world\<close>

text \<open>\<open>job.data\<close>, with the fields every branch of the worker reads; \<open>body\<close> and
  \<open>html\<close> may be absent.\<close>

record job_data =
  type :: string
  recipient :: string
  subject :: string
  body :: "string option"
  html :: "string option"
  name :: string
  username :: string
  branch :: string
  semesterId :: string
  campus :: string
  grades :: "grade_entry list"
  records :: "attendance_entry list"

record job =
  jobId :: string
  jobName :: string
  jobData :: job_data

text \<open>A thrown value is an \<open>Error\<close> object: a message, and a \<open>code\<close> when the runtime
  sets one.\<close>

record js_error =
  code :: "string option"
  message :: string

type_synonym browser = nat

type_synonym buffer = "nat list"

record attachment =
  filename :: string
  content :: buffer
  contentType :: string

record mail =
  mailFrom :: string
  mailTo :: string
  mailSubject :: string
  mailHtml :: string
  attachments :: "attachment list"

record launch_options =
  productionSettings :: bool
  executablePath :: string

text \<open>
  Everything the code asks of its surroundings, as the answers it gets: the environment
  variables, the file system, and the outcome of each call into the Chromium package,
  Puppeteer and the mail transport (\<open>Inl\<close> or \<open>Some\<close> an error when the call throws).
  \<open>puppeteerLaunch w k\<close> is the outcome of the call of \<open>puppeteer.launch\<close> made in
  iteration \<open>k\<close> of the retry loop.
\<close>

record world =
  NODE_ENV :: "string option"
  PUPPETEER_EXECUTABLE_PATH :: "string option"
  existsSync :: "string \<Rightarrow> bool"
  chromiumExecutablePath :: "js_error + string"
  puppeteerLaunch :: "nat \<Rightarrow> js_error + browser"
  newPage :: "js_error option"
  setContent :: "page_content \<Rightarrow> js_error option"
  pdf :: "page_content \<Rightarrow> js_error + buffer"
  browserClose :: "js_error option"
  sendMail :: "mail \<Rightarrow> js_error option"
  toLocaleString :: string
  numberToString :: "rat \<Rightarrow> string"

text \<open>What a run does to its surroundings, in order.\<close>

datatype event =
    Launch launch_options
  | ConsoleWarn string
  | Sleep nat
  | NewPage browser
  | SetContent page_content
  | Pdf
  | Close browser
  | ConsoleErrorWith string js_error
  | ConsoleError string
  | ConsoleLog string
  | SendMail mail

section \<open>Resolving and launching the browser\<close>

definition localPaths :: "string list" where
  "localPaths =
     [''/Applications/Google Chrome.app/Contents/MacOS/Google Chrome'',
      ''/Applications/Brave Browser.app/Contents/MacOS/Brave Browser'',
      ''/Applications/Microsoft Edge.app/Contents/MacOS/Microsoft Edge'',
      ''/usr/bin/google-chrome'']"

definition noBrowserError :: js_error where
  "noBrowserError =
     \<lparr>code = None,
      message = ''Could not find a suitable browser for Puppeteer. Please install Google Chrome or Brave Browser.''\<rparr>"

text \<open>The \<open>for\<close> loop over \<open>paths\<close> and the \<open>throw\<close> after it.\<close>

definition probeLocalPaths :: "world \<Rightarrow> js_error + string" where
  "probeLocalPaths w =
     (case find (existsSync w) localPaths of
        Some path \<Rightarrow> Inr path
      | None \<Rightarrow> Inl noBrowserError)"

text \<open>An environment variable is a string or is not set; the empty string is falsy.\<close>

definition getExecutablePath :: "world \<Rightarrow> js_error + string" where
  "getExecutablePath w =
     (if NODE_ENV w = Some ''production'' then chromiumExecutablePath w
      else (case PUPPETEER_EXECUTABLE_PATH w of
              Some p \<Rightarrow> if p \<noteq> [] then Inr p else probeLocalPaths w
            | None \<Rightarrow> probeLocalPaths w))"

definition isTransient :: "js_error \<Rightarrow> bool" where
  "isTransient err = (code err = Some ''ETXTBSY'' \<or> str_includes (message err) ''ETXTBSY'')"

definition launchWarning :: "nat \<Rightarrow> string" where
  "launchWarning i = ''Launch failed (attempt '' @ digitsOf (int i + 1) @ ''), retrying in 200ms...''"

text \<open>The \<open>for\<close> loop of \<open>baseLaunchBrowser\<close>, from iteration \<open>i\<close> on.  Falling out of
  the loop returns \<open>undefined\<close>, here \<open>Inr None\<close>.\<close>

function launchLoop ::
  "world \<Rightarrow> launch_options \<Rightarrow> int \<Rightarrow> nat \<Rightarrow> (js_error + browser option) \<times> event list" where
  "launchLoop w opts retries i =
     (if int i < retries
      then (case puppeteerLaunch w i of
              Inr b \<Rightarrow> (Inr (Some b), [Launch opts])
            | Inl err \<Rightarrow>
                if int i < retries - 1 \<and> isTransient err
                then (fst (launchLoop w opts retries (i + 1)),
                      [Launch opts, ConsoleWarn (launchWarning i), Sleep 200]
                        @ snd (launchLoop w opts retries (i + 1)))
                else (Inl err, [Launch opts]))
      else (Inr None, []))"
  by pat_completeness auto
termination
  by (relation "measure (\<lambda>(w, opts, retries, i). nat (retries - int i))") auto

declare launchLoop.simps [simp del]

definition baseLaunchBrowser :: "world \<Rightarrow> int \<Rightarrow> (js_error + browser option) \<times> event list" where
  "baseLaunchBrowser w retries =
     (let isProduction = (NODE_ENV w = Some ''production'')
      in case getExecutablePath w of
           Inl e \<Rightarrow> (Inl e, [])
         | Inr execPath \<Rightarrow>
             launchLoop w \<lparr>productionSettings = isProduction, executablePath = execPath\<rparr> retries 0)"

section \<open>Rendering a document to PDF\<close>

definition resultDoc :: "(rat \<Rightarrow> string) \<Rightarrow> job_data \<Rightarrow> result_doc" where
  "resultDoc numToString data =
     \<lparr>rdWatermark = toUpperCase (campus data),
      rdUsername = username data,
      rdBranch = branch data,
      rdName = name data,
      rdCampus = campus data,
      rdTitle = resultTitle (semesterId data) (grades data),
      rdRows = map (\<lambda>g. \<lparr>rowName = subjName (gSubject g),
                          rowCredits = toFixed numToString 1 (subjCredits (gSubject g)),
                          rowLetter = getGradeLetter (gGrade g)\<rparr>) (grades data),
      rdTotalCredits = toFixed numToString 0 (fst (resultTotals (grades data))),
      rdEarnedPoints = toFixed numToString 1 (snd (resultTotals (grades data))),
      rdSgpa = sgpa numToString (grades data)\<rparr>"

definition attendanceDoc :: "(rat \<Rightarrow> string) \<Rightarrow> string \<Rightarrow> job_data \<Rightarrow> attendance_doc" where
  "attendanceDoc numToString now data =
     \<lparr>adWatermark = toUpperCase (campus data),
      adUsername = username data,
      adBranch = branch data,
      adName = name data,
      adCampus = campus data,
      adSemester = toUpperCase (semesterId data),
      adRows = map (\<lambda>r. \<lparr>arName = subjName (rSubject r),
                          arCode = subjCode (rSubject r),
                          arAttended = attendedClasses r,
                          arTotal = totalClasses r,
                          arPercent = entryPercent numToString r\<rparr>) (records data),
      adTotalAttended = fst (attendanceTotals (records data)),
      adTotalClasses = snd (attendanceTotals (records data)),
      adOverallPercent = overallPercent numToString (records data),
      adGeneratedOn = now\<rparr>"

text \<open>
  Both PDF functions end in the same \<open>try\<close>/\<open>catch\<close>/\<open>finally\<close>, up to the label of the
  log line.  \<open>tryBlock\<close> is the \<open>try\<close> block: it yields the value the variable \<open>browser\<close>
  has when the block is left, and how the block is left.
\<close>

definition launchFailedError :: js_error where
  "launchFailedError = \<lparr>code = None, message = ''Failed to launch browser''\<rparr>"

definition tryBlock ::
  "world \<Rightarrow> page_content \<Rightarrow> (browser option \<times> (js_error + buffer)) \<times> event list" where
  "tryBlock w doc =
     (case baseLaunchBrowser w 3 of
        (Inl e, tr) \<Rightarrow> ((None, Inl e), tr)
      | (Inr None, tr) \<Rightarrow> ((None, Inl launchFailedError), tr)
      | (Inr (Some b), tr) \<Rightarrow>
          (case newPage w of
             Some e \<Rightarrow> ((Some b, Inl e), tr @ [NewPage b])
           | None \<Rightarrow>
               (case setContent w doc of
                  Some e \<Rightarrow> ((Some b, Inl e), tr @ [NewPage b, SetContent doc])
                | None \<Rightarrow>
                    (case pdf w doc of
                       Inl e \<Rightarrow> ((Some b, Inl e), tr @ [NewPage b, SetContent doc, Pdf])
                     | Inr pdfBuffer \<Rightarrow>
                         ((Some b, Inr pdfBuffer), tr @ [NewPage b, SetContent doc, Pdf])))))"

text \<open>The \<open>catch\<close> block logs and rethrows.  The \<open>finally\<close> block closes the browser when
  the variable is set; an error thrown by \<open>browser.close()\<close> replaces the completion of
  the blocks before it, as the language has it.\<close>

definition renderToPdf :: "string \<Rightarrow> world \<Rightarrow> page_content \<Rightarrow> (js_error + buffer) \<times> event list" where
  "renderToPdf label w doc =
     (let browserVar = fst (fst (tryBlock w doc));
          tried = snd (fst (tryBlock w doc));
          tr = snd (tryBlock w doc);
          tr' = (case tried of Inl error \<Rightarrow> tr @ [ConsoleErrorWith label error] | Inr _ \<Rightarrow> tr)
      in case browserVar of
           None \<Rightarrow> (tried, tr')
         | Some b \<Rightarrow>
             (case browserClose w of
                None \<Rightarrow> (tried, tr' @ [Close b])
              | Some e \<Rightarrow> (Inl e, tr' @ [Close b])))"

definition generateResultPdf :: "world \<Rightarrow> job_data \<Rightarrow> (js_error + buffer) \<times> event list" where
  "generateResultPdf w data =
     renderToPdf ''Puppeteer Launch Error:'' w (ResultHtml (resultDoc (numberToString w) data))"

definition generateAttendancePdf :: "world \<Rightarrow> job_data \<Rightarrow> (js_error + buffer) \<times> event list" where
  "generateAttendancePdf w data =
     renderToPdf ''Puppeteer Launch Error (Attendance):'' w
       (AttendanceHtml (attendanceDoc (numberToString w) (toLocaleString w) data))"

section \<open>The worker\<close>

text \<open>The template's one character outside ASCII is written as its bytes.\<close>

definition emailTemplateHead :: string where
  \<open>emailTemplateHead =
     ''\<newline>'' @
     ''  <div style="font-family: Arial, sans-serif; max-width: 600px; margin: 0 auto; border: 1px solid #e5e7eb; border-radius: 8px;">\<newline>'' @
     ''    <div style="background: linear-gradient(135deg, #2563eb 0%, #1d4ed8 100%); padding: 30px; border-radius: 8px 8px 0 0;">\<newline>'' @
     ''      <h1 style="color: white; margin: 0; font-size: 24px;">'' @
     [CHR 0xC3, CHR 0xB0, CHR 0xC5, CHR 0xB8, CHR 0xC5, CHR 0xBD, CHR 0xE2, CHR 0x80, CHR 0x9C] @
     '' UniZ Campus</h1>\<newline>'' @
     ''    </div>\<newline>'' @
     ''    <div style="padding: 30px;">\<newline>'' @
     ''      <h2 style="color: #1f2937; margin-top: 0;">''\<close>

definition emailTemplateMiddle :: string where
  \<open>emailTemplateMiddle =
     ''</h2>\<newline>'' @
     ''      <div style="color: #4b5563; line-height: 1.6;">\<newline>'' @
     ''        ''\<close>

definition emailTemplateTail :: string where
  \<open>emailTemplateTail =
     ''\<newline>'' @
     ''      </div>\<newline>'' @
     ''      <hr style="border: none; border-top: 1px solid #e5e7eb; margin: 30px 0;">\<newline>'' @
     ''      <p style="color: #9ca3af; font-size: 12px; margin: 0;">\<newline>'' @
     ''        This is an automated email from UniZ Campus Management System.<br>\<newline>'' @
     ''        Please do not reply to this email.\<newline>'' @
     ''      </p>\<newline>'' @
     ''    </div>\<newline>'' @
     ''  </div>\<newline>''\<close>

definition emailTemplate :: "string \<Rightarrow> string \<Rightarrow> string" where
  "emailTemplate title content' =
     emailTemplateHead @ title @ emailTemplateMiddle @ content' @ emailTemplateTail"

text \<open>A value in a template literal: an absent one prints as \<open>undefined\<close>.  In
  \<open>html || emailTemplate(...)\<close> an absent \<open>html\<close> and the empty string are the falsy
  values.\<close>

definition interpolate :: "string option \<Rightarrow> string" where
  "interpolate v = (case v of Some s \<Rightarrow> s | None \<Rightarrow> ''undefined'')"

definition emailMail :: "job_data \<Rightarrow> mail" where
  \<open>emailMail data =
     \<lparr>mailFrom = ''"UniZ Campus" <noreplycampusschield@gmail.com>'',
      mailTo = recipient data,
      mailSubject = subject data,
      mailHtml = (case html data of
                    None \<Rightarrow> emailTemplate (subject data) (''<p>'' @ interpolate (body data) @ ''</p>'')
                  | Some h \<Rightarrow>
                      if h = []
                      then emailTemplate (subject data) (''<p>'' @ interpolate (body data) @ ''</p>'')
                      else h),
      attachments = []\<rparr>\<close>

definition resultMail :: "job_data \<Rightarrow> buffer \<Rightarrow> mail" where
  \<open>resultMail data pdfBuffer =
     \<lparr>mailFrom = ''"UniZ Academics" <noreplycampusschield@gmail.com>'',
      mailTo = recipient data,
      mailSubject = ''Result Declaration: '' @ semesterId data,
      mailHtml = emailTemplate (''Result Declaration: '' @ semesterId data)
                   (''<p>Dear Student,<br><br>The results for <strong>'' @ semesterId data @
                    ''</strong> have been published.<br>Please find the detailed grade report attached.</p>''),
      attachments =
        [\<lparr>filename = ''ACADEMIC_REPORT_'' @ username data @ ''_'' @ semesterId data @ ''.pdf'',
          content = pdfBuffer,
          contentType = ''application/pdf''\<rparr>]\<rparr>\<close>

definition attendanceMail :: "job_data \<Rightarrow> buffer \<Rightarrow> mail" where
  \<open>attendanceMail data pdfBuffer =
     \<lparr>mailFrom = ''"UniZ Academics" <noreplycampusschield@gmail.com>'',
      mailTo = recipient data,
      mailSubject = ''Attendance Report: '' @ semesterId data,
      mailHtml = emailTemplate (''Attendance Report: '' @ semesterId data)
                   (''<p>Dear Student,<br><br>The attendance report for <strong>'' @ semesterId data @
                    ''</strong> is now available.<br>Please find your detailed attendance record attached.</p>''),
      attachments =
        [\<lparr>filename = username data @ ''_Attendance_'' @ semesterId data @ ''.pdf'',
          content = pdfBuffer,
          contentType = ''application/pdf''\<rparr>]\<rparr>\<close>

text \<open>The handler given to \<open>new Worker\<close>: \<open>Inr ()\<close> when it returns, \<open>Inl e\<close> when it
  throws \<open>e\<close>.\<close>

definition worker :: "world \<Rightarrow> job \<Rightarrow> (js_error + unit) \<times> event list" where
  "worker w job =
     (let data = jobData job;
          started = [ConsoleLog (''Processing job '' @ jobId job @ '': '' @ jobName job)]
      in if type data = ''EMAIL''
         then (case sendMail w (emailMail data) of
                 Some e \<Rightarrow> (Inl e, started @ [SendMail (emailMail data)])
               | None \<Rightarrow>
                   (Inr (),
                    started @ [SendMail (emailMail data),
                               ConsoleLog (''Email sent to '' @ recipient data)]))
         else if type data = ''RESULTS''
         then (case generateResultPdf w data of
                 (Inl e, tr) \<Rightarrow>
                   (Inl e,
                    started @ tr @
                    [ConsoleError (''Failed to generate/send Result PDF for '' @ recipient data
                                   @ '': '' @ message e)])
               | (Inr pdfBuffer, tr) \<Rightarrow>
                   (case sendMail w (resultMail data pdfBuffer) of
                      Some e \<Rightarrow>
                        (Inl e,
                         started @ tr @
                         [SendMail (resultMail data pdfBuffer),
                          ConsoleError (''Failed to generate/send Result PDF for '' @ recipient data
                                        @ '': '' @ message e)])
                    | None \<Rightarrow>
                        (Inr (),
                         started @ tr @
                         [SendMail (resultMail data pdfBuffer),
                          ConsoleLog (''Result Email with PDF sent to '' @ recipient data)])))
         else if type data = ''ATTENDANCE_REPORT''
         then (case generateAttendancePdf w data of
                 (Inl e, tr) \<Rightarrow>
                   (Inl e,
                    started @ tr @
                    [ConsoleError (''Failed to generate/send Attendance PDF for '' @ recipient data
                                   @ '': '' @ message e)])
               | (Inr pdfBuffer, tr) \<Rightarrow>
                   (case sendMail w (attendanceMail data pdfBuffer) of
                      Some e \<Rightarrow>
                        (Inl e,
                         started @ tr @
                         [SendMail (attendanceMail data pdfBuffer),
                          ConsoleError (''Failed to generate/send Attendance PDF for '' @ recipient data
                                        @ '': '' @ message e)])
                    | None \<Rightarrow>
                        (Inr (),
                         started @ tr @
                         [SendMail (attendanceMail data pdfBuffer),
                          ConsoleLog (''Attendance Email with PDF sent to '' @ recipient data)])))
         else (Inr (), started))"

section \<open>Reading a trace\<close>

definition isLaunch :: "event \<Rightarrow> bool" where
  "isLaunch ev = (case ev of Launch _ \<Rightarrow> True | _ \<Rightarrow> False)"

definition isClose :: "event \<Rightarrow> bool" where
  "isClose ev = (case ev of Close _ \<Rightarrow> True | _ \<Rightarrow> False)"

definition isSendMail :: "event \<Rightarrow> bool" where
  "isSendMail ev = (case ev of SendMail _ \<Rightarrow> True | _ \<Rightarrow> False)"

definition transientFailure :: "world \<Rightarrow> nat \<Rightarrow> bool" where
  "transientFailure w k = (case puppeteerLaunch w k of Inl err \<Rightarrow> isTransient err | Inr _ \<Rightarrow> False)"

text \<open>What one failed attempt that is retried leaves in the trace.\<close>

definition retried :: "launch_options \<Rightarrow> nat \<Rightarrow> event list" where
  "retried opts k = [Launch opts, ConsoleWarn (launchWarning k), Sleep 200]"

text \<open>The exception raised by page rendering or PDF export, if one is: the first of
  \<open>browser.newPage()\<close>, \<open>page.setContent(html)\<close> and \<open>page.pdf(...)\<close> that throws.\<close>

definition renderFailure :: "world \<Rightarrow> page_content \<Rightarrow> js_error option" where
  "renderFailure w doc =
     (case newPage w of
        Some e \<Rightarrow> Some e
      | None \<Rightarrow>
          (case setContent w doc of
             Some e \<Rightarrow> Some e
           | None \<Rightarrow> (case pdf w doc of Inl e \<Rightarrow> Some e | Inr _ \<Rightarrow> None)))"

section \<open>Sample inputs\<close>

definition transientError :: js_error where
  "transientError = \<lparr>code = Some ''ETXTBSY'', message = ''spawn ETXTBSY''\<rparr>"

definition renderError :: js_error where
  "renderError = \<lparr>code = None, message = ''Printing failed''\<rparr>"

definition sendError :: js_error where
  "sendError = \<lparr>code = Some ''EAUTH'', message = ''Invalid login''\<rparr>"

text \<open>A development machine on which the browser starts at the third attempt.\<close>

definition exampleWorld :: world where
  "exampleWorld =
     \<lparr>NODE_ENV = Some ''development'',
      PUPPETEER_EXECUTABLE_PATH = None,
      existsSync = (\<lambda>path. path = ''/usr/bin/google-chrome''),
      chromiumExecutablePath = Inr ''/tmp/chromium'',
      puppeteerLaunch = (\<lambda>k. if k < 2 then Inl transientError else Inr 1),
      newPage = None,
      setContent = (\<lambda>doc. None),
      pdf = (\<lambda>doc. Inr [37, 80, 68, 70]),
      browserClose = None,
      sendMail = (\<lambda>m. None),
      toLocaleString = ''1/1/2026, 10:00:00 AM'',
      numberToString = (\<lambda>r. [])\<rparr>"

definition exampleData :: job_data where
  "exampleData =
     \<lparr>type = ''RESULTS'',
      recipient = ''student@example.org'',
      subject = ''Results'',
      body = Some ''Hello'',
      html = None,
      name = ''A Student'',
      username = ''O190001'',
      branch = ''CSE'',
      semesterId = ''E2S1'',
      campus = ''ongole'',
      grades =
        [\<lparr>gSubject = \<lparr>subjName = ''Mathematics'', subjCode = Some ''MA2101'', subjCredits = Num 4\<rparr>,
          gGrade = Num 9\<rparr>,
         \<lparr>gSubject = \<lparr>subjName = ''Physics'', subjCode = Some ''PH2101'', subjCredits = Num 3\<rparr>,
          gGrade = Num 7\<rparr>],
      records =
        [\<lparr>rSubject = \<lparr>subjName = ''Mathematics'', subjCode = Some ''MA2101'', subjCredits = Num 4\<rparr>,
          attendedClasses = Num 45, totalClasses = Num 60\<rparr>]\<rparr>"

definition exampleJob :: job where
  "exampleJob = \<lparr>jobId = ''17'', jobName = ''notify'', jobData = exampleData\<rparr>"

definition pdfFailsWorld :: world where
  "pdfFailsWorld = exampleWorld\<lparr>pdf := (\<lambda>doc. Inl renderError)\<rparr>"

definition sendFailsWorld :: world where
  "sendFailsWorld = exampleWorld\<lparr>sendMail := (\<lambda>m. Some sendError)\<rparr>"

text \<open>A machine on which the export to PDF fails and \<open>browser.close()\<close> fails after it.\<close>

definition closeError :: js_error where
  "closeError = \<lparr>code = None, message = ''Protocol error: Connection closed.''\<rparr>"

definition closeFailsWorld :: world where
  "closeFailsWorld = pdfFailsWorld\<lparr>browserClose := Some closeError\<rparr>"

text \<open>An override that names no file, on a machine that has Chrome installed.\<close>

definition overrideWorld :: world where
  "overrideWorld = exampleWorld\<lparr>PUPPETEER_EXECUTABLE_PATH := Some ''/opt/chrome''\<rparr>"

definition productionWorld :: world where
  "productionWorld = exampleWorld\<lparr>NODE_ENV := Some ''production''\<rparr>"

definition noBrowserWorld :: world where
  "noBrowserWorld = exampleWorld\<lparr>existsSync := (\<lambda>path. False)\<rparr>"

definition attendanceJob :: job where
  "attendanceJob = exampleJob\<lparr>jobData := exampleData\<lparr>type := ''ATTENDANCE_REPORT''\<rparr>\<rparr>"

definition emailJob :: job where
  "emailJob = exampleJob\<lparr>jobData := exampleData\<lparr>type := ''EMAIL'', html := Some []\<rparr>\<rparr>"

definition unknownJob :: job where
  "unknownJob = exampleJob\<lparr>jobData := exampleData\<lparr>type := ''SMS''\<rparr>\<rparr>"

text \<open>Two grade entries of which only the second has a subject code with a year digit.\<close>

definition secondCodeGrades :: "grade_entry list" where
  "secondCodeGrades =
     [\<lparr>gSubject = \<lparr>subjName = ''Mathematics'', subjCode = Some ''MATH'', subjCredits = Num 4\<rparr>,
       gGrade = Num 9\<rparr>,
      \<lparr>gSubject = \<lparr>subjName = ''Programming'', subjCode = Some ''CS2101'', subjCredits = Num 3\<rparr>,
       gGrade = Num 7\<rparr>]"

section \<open>Rounding is exact on small integers\<close>

lemma roundHalfEven_of_int: "roundHalfEven (of_int k) = k"
  by (simp add: roundHalfEven_def)

lemma fl_of_int_pos:
  assumes "0 < n" and "n < 9007199254740992"
  shows "fl (of_int n) = Num (of_int n)"
proof -
  define e where "e = bitlen n - 1"
  have e0: "0 \<le> e"
    using assms(1) bitlen_eq_zero_iff[of n] bitlen_nonneg[of n] by (simp add: e_def)
  have "bitlen n \<le> 53"
    using assms(2) by (simp add: bitlen_le_iff_power)
  then have e52: "e \<le> 52"
    by (simp add: e_def)
  have il: "ilog2 (of_int n) = e"
    using assms(1) by (simp add: ilog2_def e_def)
  have pw: "pow2 (e - 52) = 1 / 2 ^ nat (52 - e)"
    using e52 by (cases "e = 52") (simp_all add: pow2_def)
  have q: "rat_of_int n / pow2 (e - 52) = of_int (n * 2 ^ nat (52 - e))"
    by (simp add: pw)
  have m: "roundHalfEven (rat_of_int n / pow2 (e - 52)) = n * 2 ^ nat (52 - e)"
    unfolding q by (rule roundHalfEven_of_int)
  have a: "\<bar>rat_of_int n\<bar> = of_int n"
    using assms(1) by simp
  have mx: "max e (- 1022) = e"
    using e0 by simp
  show ?thesis
    unfolding fl_def a il mx Let_def m using assms(1) e52 by (simp add: pw)
qed

lemma fl_numeral: "numeral k < (9007199254740992::int) \<Longrightarrow> fl (numeral k) = Num (numeral k)"
  using fl_of_int_pos[of "numeral k"] by simp

lemma fl_of_nat:
  assumes "n < 9007199254740992"
  shows "fl (of_nat n) = Num (of_nat n)"
proof (cases "n = 0")
  case True
  then show ?thesis by (simp add: fl_def)
next
  case False
  with assms fl_of_int_pos[of "int n"] show ?thesis by simp
qed

section \<open>Result report: the numbers\<close>

lemma resultTotals_Nil: "resultTotals [] = (Num 0, Num 0)"
  by (simp add: resultTotals_def)

lemma resultTotals_snoc: "resultTotals (gs @ [g]) = resultStep (resultTotals gs) g"
  by (simp add: resultTotals_def)

lemma result_foldl:
  "foldl resultStep (t, e) gs =
     (foldl jadd t (map (\<lambda>g. subjCredits (gSubject g)) gs),
      foldl jadd e
        (map (\<lambda>g. jmul (subjCredits (gSubject g)) (if jgt (gGrade g) (Num 0) then gGrade g else Num 0))
           (filter (\<lambda>g. jgt (subjCredits (gSubject g)) (Num 0)) gs)))"
  by (induction gs arbitrary: t e) (simp_all add: resultStep_def Let_def)

lemma map_eq_two:
  "map f xs = [a, b] \<Longrightarrow> \<exists>x1 x2. xs = [x1, x2] \<and> f x1 = a \<and> f x2 = b"
  by (cases xs; cases "tl xs"; auto)

lemma sgpa_57_7: "toFixed numToString 2 (jdiv (Num 57) (Num 7)) = ''8.14''"
  by code_simp

lemma scenario_A_totals:
  assumes "map (\<lambda>g. (subjCredits (gSubject g), gGrade g)) gs = [(Num 4, Num 9), (Num 3, Num 7)]"
  shows "resultTotals gs = (Num 7, Num 57)"
proof -
  from map_eq_two[OF assms] obtain g1 g2 where gs: "gs = [g1, g2]"
    and g1: "subjCredits (gSubject g1) = Num 4" "gGrade g1 = Num 9"
    and g2: "subjCredits (gSubject g2) = Num 3" "gGrade g2 = Num 7"
    by auto
  show ?thesis
    by (simp add: gs resultTotals_def resultStep_def Let_def g1 g2 jmul_def fl_numeral)
qed

text \<open>
  \<^bold>\<open>C4.\<close>  The loop starts from \<open>(0, 0)\<close>; each grade entry adds its credit to
  \<open>totalCredits\<close> and, only when the credit is positive, adds \<open>credit * max(gradePoint, 0)\<close>
  to \<open>earnedPoints\<close>: \<open>totalCredits\<close> is the sum of the credits of all entries and
  \<open>earnedPoints\<close> the sum of the products over the entries with a positive credit.  The SGPA is \<open>earnedPoints / totalCredits\<close> printed with two decimals
  when \<open>totalCredits\<close> is positive and the string \<open>0.00\<close> when it is zero.  Credits 4 and 3
  with grade points 9 and 7 give \<open>totalCredits = 7\<close>, \<open>earnedPoints = 57\<close> and SGPA \<open>8.14\<close>.
\<close>

theorem sgpa_accumulation:
  "resultTotals [] = (Num 0, Num 0) \<and>
   resultTotals (gs @ [g]) =
     (jadd (fst (resultTotals gs)) (subjCredits (gSubject g)),
      if jgt (subjCredits (gSubject g)) (Num 0)
      then jadd (snd (resultTotals gs))
             (jmul (subjCredits (gSubject g)) (if jgt (gGrade g) (Num 0) then gGrade g else Num 0))
      else snd (resultTotals gs)) \<and>
   fst (resultTotals gs) = foldl jadd (Num 0) (map (\<lambda>g. subjCredits (gSubject g)) gs) \<and>
   snd (resultTotals gs) =
     foldl jadd (Num 0)
       (map (\<lambda>g. jmul (subjCredits (gSubject g)) (if jgt (gGrade g) (Num 0) then gGrade g else Num 0))
          (filter (\<lambda>g. jgt (subjCredits (gSubject g)) (Num 0)) gs)) \<and>
   (if jgt (Num p) (Num 0) then Num p else Num 0) = Num (max p 0) \<and>
   (jgt (fst (resultTotals gs)) (Num 0) \<longrightarrow>
      sgpa numToString gs =
        toFixed numToString 2 (jdiv (snd (resultTotals gs)) (fst (resultTotals gs)))) \<and>
   (fst (resultTotals gs) = Num 0 \<longrightarrow> sgpa numToString gs = ''0.00'') \<and>
   (map (\<lambda>g. (subjCredits (gSubject g), gGrade g)) gs = [(Num 4, Num 9), (Num 3, Num 7)] \<longrightarrow>
      resultTotals gs = (Num 7, Num 57) \<and> sgpa numToString gs = ''8.14'')"
proof (intro conjI impI)
  show "resultTotals [] = (Num 0, Num 0)"
    by (rule resultTotals_Nil)
  show "resultTotals (gs @ [g]) =
     (jadd (fst (resultTotals gs)) (subjCredits (gSubject g)),
      if jgt (subjCredits (gSubject g)) (Num 0)
      then jadd (snd (resultTotals gs))
             (jmul (subjCredits (gSubject g)) (if jgt (gGrade g) (Num 0) then gGrade g else Num 0))
      else snd (resultTotals gs))"
    by (simp add: resultTotals_snoc resultStep_def Let_def)
  show "fst (resultTotals gs) = foldl jadd (Num 0) (map (\<lambda>g. subjCredits (gSubject g)) gs)"
    by (simp add: resultTotals_def result_foldl)
  show "snd (resultTotals gs) =
     foldl jadd (Num 0)
       (map (\<lambda>g. jmul (subjCredits (gSubject g)) (if jgt (gGrade g) (Num 0) then gGrade g else Num 0))
          (filter (\<lambda>g. jgt (subjCredits (gSubject g)) (Num 0)) gs))"
    by (simp add: resultTotals_def result_foldl)
  show "(if jgt (Num p) (Num 0) then Num p else Num 0) = Num (max p 0)"
    by (simp add: max_def)
next
  assume "jgt (fst (resultTotals gs)) (Num 0)"
  then show "sgpa numToString gs =
      toFixed numToString 2 (jdiv (snd (resultTotals gs)) (fst (resultTotals gs)))"
    by (simp add: sgpa_def)
next
  assume "fst (resultTotals gs) = Num 0"
  then show "sgpa numToString gs = ''0.00''"
    by (simp add: sgpa_def)
next
  assume a: "map (\<lambda>g. (subjCredits (gSubject g), gGrade g)) gs = [(Num 4, Num 9), (Num 3, Num 7)]"
  show t: "resultTotals gs = (Num 7, Num 57)"
    by (rule scenario_A_totals[OF a])
  show "sgpa numToString gs = ''8.14''"
    by (simp add: sgpa_def t sgpa_57_7)
qed

theorem sgpa_accumulation_witness:
  "resultTotals (grades exampleData) = (Num 7, Num 57) \<and>
   sgpa (numberToString exampleWorld) (grades exampleData) = ''8.14'' \<and>
   sgpa (numberToString exampleWorld) (grades exampleData) =
     toFixed (numberToString exampleWorld) 2 (jdiv (Num 57) (Num 7)) \<and>
   sgpa (numberToString exampleWorld) [] = ''0.00''"
proof -
  have h: "map (\<lambda>g. (subjCredits (gSubject g), gGrade g)) (grades exampleData)
             = [(Num 4, Num 9), (Num 3, Num 7)]"
    by (simp add: exampleData_def)
  have z: "fst (resultTotals []) = Num 0"
    by (simp add: resultTotals_def)
  from sgpa_accumulation[of "grades exampleData" "hd (grades exampleData)" 0 "numberToString exampleWorld"] h
  have t: "resultTotals (grades exampleData) = (Num 7, Num 57)"
    and s: "sgpa (numberToString exampleWorld) (grades exampleData) = ''8.14''"
    by blast+
  have pos: "jgt (fst (resultTotals (grades exampleData))) (Num 0)"
    by (simp add: t)
  from sgpa_accumulation[of "grades exampleData" "hd (grades exampleData)" 0 "numberToString exampleWorld"] pos
  have d: "sgpa (numberToString exampleWorld) (grades exampleData) =
     toFixed (numberToString exampleWorld) 2 (jdiv (Num 57) (Num 7))"
    by (simp add: t)
  from sgpa_accumulation[of "[]" "hd (grades exampleData)" 0 "numberToString exampleWorld"] z
  have e: "sgpa (numberToString exampleWorld) [] = ''0.00''"
    by blast
  from t s d e show ?thesis by blast
qed

text \<open>
  \<^bold>\<open>C5.\<close>  The letter of a grade point follows the threshold table, each threshold
  included in the band above it: the seven bands are disjoint and cover every number, so
  every grade point has exactly one letter.  Infinity is in the top band; \<open>NaN\<close>, which
  compares false with every threshold, gets \<open>R\<close>.
\<close>

theorem getGradeLetter_partition:
  "((getGradeLetter (Num x) = ''EX'') = (10 \<le> x)) \<and>
   ((getGradeLetter (Num x) = ''A'') = (9 \<le> x \<and> x < 10)) \<and>
   ((getGradeLetter (Num x) = ''B'') = (8 \<le> x \<and> x < 9)) \<and>
   ((getGradeLetter (Num x) = ''C'') = (7 \<le> x \<and> x < 8)) \<and>
   ((getGradeLetter (Num x) = ''D'') = (6 \<le> x \<and> x < 7)) \<and>
   ((getGradeLetter (Num x) = ''E'') = (5 \<le> x \<and> x < 6)) \<and>
   ((getGradeLetter (Num x) = ''R'') = (x < 5)) \<and>
   getGradeLetter PosInf = ''EX'' \<and> getGradeLetter NegInf = ''R'' \<and> getGradeLetter NaN = ''R'' \<and>
   getGradeLetter point \<in> set [''EX'', ''A'', ''B'', ''C'', ''D'', ''E'', ''R'']"
  by (cases point) (auto simp add: getGradeLetter_def)

section \<open>Attendance report: the numbers\<close>

lemma attendance_foldl:
  "foldl attendanceStep (a, t) rs =
     (foldl jadd a (map attendedClasses rs), foldl jadd t (map totalClasses rs))"
  by (induction rs arbitrary: a t) (simp_all add: attendanceStep_def)

lemma foldl_jadd_nat:
  "a + sum_list ns < 9007199254740992 \<Longrightarrow>
   foldl jadd (Num (of_nat a)) (map (\<lambda>n. Num (of_nat n)) ns) = Num (of_nat (a + sum_list ns))"
proof (induction ns arbitrary: a)
  case Nil
  then show ?case by simp
next
  case (Cons n ns)
  have "a + n < 9007199254740992" using Cons.prems by simp
  then have "fl (of_nat (a + n)) = Num (of_nat (a + n))" by (rule fl_of_nat)
  then have step: "jadd (Num (of_nat a)) (Num (of_nat n)) = Num (of_nat (a + n))"
    by (simp only: jadd.simps of_nat_add)
  have "a + n + sum_list ns < 9007199254740992" using Cons.prems by simp
  from Cons.IH[OF this] show ?case
    unfolding list.map foldl_Cons step sum_list.Cons by (simp only: add.assoc)
qed

lemma scenario_B_entry: "toFixed numToString 1 (jmul (jdiv (Num 45) (Num 60)) (Num 100)) = ''75.0''"
  by code_simp

lemma scenario_B_overall: "toFixed numToString 2 (jmul (jdiv (Num 45) (Num 60)) (Num 100)) = ''75.00''"
  by code_simp

text \<open>
  \<^bold>\<open>C6.\<close>  The loop sums \<open>attendedClasses\<close> and \<open>totalClasses\<close>; on whole numbers the sums
  are the exact ones.  The overall percentage is \<open>totalAttended / totalClasses * 100\<close> printed
  with two decimals when \<open>totalClasses\<close> is positive, and \<open>0.00\<close> when it is zero; an entry's
  percentage is printed with one decimal, and is \<open>0.0\<close> when the entry's \<open>totalClasses\<close> is
  zero.  One record with 45 of 60 classes gives \<open>75.0\<close> and \<open>75.00\<close>.
\<close>

theorem attendance_percentages:
  "attendanceTotals rs =
     (foldl jadd (Num 0) (map attendedClasses rs), foldl jadd (Num 0) (map totalClasses rs)) \<and>
   (map attendedClasses rs = map (\<lambda>n. Num (of_nat n)) attended \<and>
    map totalClasses rs = map (\<lambda>n. Num (of_nat n)) totals \<and>
    sum_list attended < 9007199254740992 \<and> sum_list totals < 9007199254740992 \<longrightarrow>
      attendanceTotals rs = (Num (of_nat (sum_list attended)), Num (of_nat (sum_list totals)))) \<and>
   (jgt (snd (attendanceTotals rs)) (Num 0) \<longrightarrow>
      overallPercent numToString rs =
        toFixed numToString 2
          (jmul (jdiv (fst (attendanceTotals rs)) (snd (attendanceTotals rs))) (Num 100))) \<and>
   (snd (attendanceTotals rs) = Num 0 \<longrightarrow> overallPercent numToString rs = ''0.00'') \<and>
   (jgt (totalClasses r) (Num 0) \<longrightarrow>
      entryPercent numToString r =
        toFixed numToString 1 (jmul (jdiv (attendedClasses r) (totalClasses r)) (Num 100))) \<and>
   (totalClasses r = Num 0 \<longrightarrow> entryPercent numToString r = ''0.0'') \<and>
   (attendedClasses r = Num 45 \<and> totalClasses r = Num 60 \<longrightarrow>
      entryPercent numToString r = ''75.0'' \<and> overallPercent numToString [r] = ''75.00'')"
proof (intro conjI impI)
  show sums: "attendanceTotals rs =
     (foldl jadd (Num 0) (map attendedClasses rs), foldl jadd (Num 0) (map totalClasses rs))"
    by (simp add: attendanceTotals_def attendance_foldl)
  show "attendanceTotals rs = (Num (of_nat (sum_list attended)), Num (of_nat (sum_list totals)))"
    if "map attendedClasses rs = map (\<lambda>n. Num (of_nat n)) attended \<and>
        map totalClasses rs = map (\<lambda>n. Num (of_nat n)) totals \<and>
        sum_list attended < 9007199254740992 \<and> sum_list totals < 9007199254740992"
    using that foldl_jadd_nat[of 0 attended] foldl_jadd_nat[of 0 totals]
    by (simp add: sums)
  show "overallPercent numToString rs =
        toFixed numToString 2
          (jmul (jdiv (fst (attendanceTotals rs)) (snd (attendanceTotals rs))) (Num 100))"
    if "jgt (snd (attendanceTotals rs)) (Num 0)"
    using that by (simp add: overallPercent_def)
  show "overallPercent numToString rs = ''0.00''" if "snd (attendanceTotals rs) = Num 0"
    using that by (simp add: overallPercent_def)
  show "entryPercent numToString r =
        toFixed numToString 1 (jmul (jdiv (attendedClasses r) (totalClasses r)) (Num 100))"
    if "jgt (totalClasses r) (Num 0)"
    using that by (simp add: entryPercent_def)
  show "entryPercent numToString r = ''0.0''" if "totalClasses r = Num 0"
    using that by (simp add: entryPercent_def)
  show "entryPercent numToString r = ''75.0''"
    if "attendedClasses r = Num 45 \<and> totalClasses r = Num 60"
    using that scenario_B_entry[of numToString] by (simp add: entryPercent_def)
  show "overallPercent numToString [r] = ''75.00''"
    if "attendedClasses r = Num 45 \<and> totalClasses r = Num 60"
    using that scenario_B_overall[of numToString]
    by (simp add: overallPercent_def attendanceTotals_def attendanceStep_def fl_numeral)
qed

theorem attendance_percentages_witness:
  "entryPercent (numberToString exampleWorld) (hd (records exampleData)) = ''75.0'' \<and>
   overallPercent (numberToString exampleWorld) (records exampleData) = ''75.00'' \<and>
   attendanceTotals (records exampleData) = (Num 45, Num 60) \<and>
   overallPercent (numberToString exampleWorld) [] = ''0.00'' \<and>
   entryPercent (numberToString exampleWorld)
     \<lparr>rSubject = rSubject (hd (records exampleData)), attendedClasses = Num 0, totalClasses = Num 0\<rparr>
     = ''0.0''"
proof -
  let ?r = "hd (records exampleData)"
  let ?z = "\<lparr>rSubject = rSubject (hd (records exampleData)), attendedClasses = Num 0, totalClasses = Num 0\<rparr>"
  let ?n = "numberToString exampleWorld"
  have rs: "[?r] = records exampleData"
    by (simp add: exampleData_def)
  have r: "attendedClasses ?r = Num 45 \<and> totalClasses ?r = Num 60"
    by (simp add: exampleData_def)
  note A = attendance_percentages[of "[?r]" "[45]" "[60]" ?n ?r]
  note A_exact = A[THEN conjunct2, THEN conjunct1]
  note A_example = A[THEN conjunct2, THEN conjunct2, THEN conjunct2, THEN conjunct2,
                     THEN conjunct2, THEN conjunct2]
  from A_example r have eo: "entryPercent ?n ?r = ''75.0'' \<and> overallPercent ?n [?r] = ''75.00''"
    by (rule mp)
  have m: "map attendedClasses [?r] = map (\<lambda>n. Num (of_nat n)) [45] \<and>
           map totalClasses [?r] = map (\<lambda>n. Num (of_nat n)) [60] \<and>
           sum_list [45::nat] < 9007199254740992 \<and> sum_list [60::nat] < 9007199254740992"
    using r by simp
  from A_exact m
  have t: "attendanceTotals [?r] = (Num (of_nat (sum_list [45])), Num (of_nat (sum_list [60])))"
    by (rule mp)
  note B = attendance_percentages[of "[]" "[]" "[]" ?n ?z]
  note B_zero = B[THEN conjunct2, THEN conjunct2, THEN conjunct2, THEN conjunct1]
  note B_entry = B[THEN conjunct2, THEN conjunct2, THEN conjunct2, THEN conjunct2,
                   THEN conjunct2, THEN conjunct1]
  have z0: "snd (attendanceTotals []) = Num 0"
    by (simp add: attendanceTotals_def)
  from B_zero z0 have o0: "overallPercent ?n [] = ''0.00''"
    by (rule mp)
  have z1: "totalClasses ?z = Num 0"
    by simp
  from B_entry z1 have e0: "entryPercent ?n ?z = ''0.0''"
    by (rule mp)
  from eo t o0 e0 show ?thesis
    by (simp add: rs)
qed

section \<open>Launching with retries\<close>

lemma launchLoop_3:
  "launchLoop w opts 3 0 =
     (case puppeteerLaunch w 0 of
        Inr b \<Rightarrow> (Inr (Some b), [Launch opts])
      | Inl e0 \<Rightarrow>
          if \<not> isTransient e0 then (Inl e0, [Launch opts])
          else (case puppeteerLaunch w 1 of
                  Inr b \<Rightarrow> (Inr (Some b), retried opts 0 @ [Launch opts])
                | Inl e1 \<Rightarrow>
                    if \<not> isTransient e1 then (Inl e1, retried opts 0 @ [Launch opts])
                    else (case puppeteerLaunch w 2 of
                            Inr b \<Rightarrow> (Inr (Some b), retried opts 0 @ retried opts 1 @ [Launch opts])
                          | Inl e2 \<Rightarrow> (Inl e2, retried opts 0 @ retried opts 1 @ [Launch opts]))))"
proof -
  have l2: "launchLoop w opts 3 2 =
      (case puppeteerLaunch w 2 of Inr b \<Rightarrow> (Inr (Some b), [Launch opts]) | Inl e \<Rightarrow> (Inl e, [Launch opts]))"
    by (subst launchLoop.simps) (simp split: sum.splits)
  have l1: "launchLoop w opts 3 1 =
      (case puppeteerLaunch w 1 of Inr b \<Rightarrow> (Inr (Some b), [Launch opts])
       | Inl e \<Rightarrow> if isTransient e
                  then (fst (launchLoop w opts 3 2), retried opts 1 @ snd (launchLoop w opts 3 2))
                  else (Inl e, [Launch opts]))"
    by (subst launchLoop.simps) (simp add: retried_def numeral_2_eq_2 split: sum.splits)
  have l0: "launchLoop w opts 3 0 =
      (case puppeteerLaunch w 0 of Inr b \<Rightarrow> (Inr (Some b), [Launch opts])
       | Inl e \<Rightarrow> if isTransient e
                  then (fst (launchLoop w opts 3 1), retried opts 0 @ snd (launchLoop w opts 3 1))
                  else (Inl e, [Launch opts]))"
    by (subst launchLoop.simps) (simp add: retried_def numeral_2_eq_2 split: sum.splits)
  show ?thesis
    unfolding l0 l1 l2 by (simp split: sum.splits)
qed


text \<open>
  \<^bold>\<open>C2.\<close>  \<open>baseLaunchBrowser\<close> with its default of three retries, once the executable
  path is resolved, calls \<open>puppeteer.launch\<close> at most three times.  While the attempts before
  it failed with a transient cause (\<open>ETXTBSY\<close> as the error's code or inside its message),
  each of them is followed by a warning and a wait of 200 ms and then by the next attempt.
  The first attempt that succeeds ends the loop with the browser; the first that fails with
  any other cause ends it by rethrowing that error, with no further attempt; and when all
  three fail with a transient cause, the third error is rethrown.
\<close>

theorem launch_retry:
  assumes "getExecutablePath w = Inr p"
  shows
   "(let r = fst (baseLaunchBrowser w 3); tr = snd (baseLaunchBrowser w 3);
         opts = \<lparr>productionSettings = (NODE_ENV w = Some ''production''), executablePath = p\<rparr>
     in length (filter isLaunch tr) \<le> 3 \<and>
        (\<forall>k b. k < 3 \<and> (\<forall>j<k. transientFailure w j) \<and> puppeteerLaunch w k = Inr b \<longrightarrow>
           r = Inr (Some b) \<and> tr = concat (map (retried opts) [0..<k]) @ [Launch opts]) \<and>
        (\<forall>k err. k < 3 \<and> (\<forall>j<k. transientFailure w j) \<and> puppeteerLaunch w k = Inl err \<and> \<not> isTransient err \<longrightarrow>
           r = Inl err \<and> tr = concat (map (retried opts) [0..<k]) @ [Launch opts]) \<and>
        (\<forall>err. (\<forall>j<3. transientFailure w j) \<and> puppeteerLaunch w 2 = Inl err \<longrightarrow>
           r = Inl err \<and> tr = retried opts 0 @ retried opts 1 @ [Launch opts]))"
proof -
  define opts where "opts = \<lparr>productionSettings = (NODE_ENV w = Some ''production''), executablePath = p\<rparr>"
  have base: "baseLaunchBrowser w 3 = launchLoop w opts 3 0"
    by (simp add: baseLaunchBrowser_def assms opts_def)
  have lt3: "\<And>k::nat. k < 3 \<Longrightarrow> k = 0 \<or> k = 1 \<or> k = 2" by arith
  have all3: "\<And>P. (\<forall>j<3::nat. P j) = (P 0 \<and> P 1 \<and> P 2)"
    by (auto simp: numeral_3_eq_3 less_Suc_eq numeral_2_eq_2)
  have c1: "length (filter isLaunch (snd (launchLoop w opts 3 0))) \<le> 3"
    by (simp add: launchLoop_3 retried_def isLaunch_def split: sum.splits)
  have c2: "\<forall>k b. k < 3 \<and> (\<forall>j<k. transientFailure w j) \<and> puppeteerLaunch w k = Inr b \<longrightarrow>
           fst (launchLoop w opts 3 0) = Inr (Some b) \<and>
           snd (launchLoop w opts 3 0) = concat (map (retried opts) [0..<k]) @ [Launch opts]"
  proof (intro allI impI)
    fix k b assume a: "k < 3 \<and> (\<forall>j<k. transientFailure w j) \<and> puppeteerLaunch w k = Inr b"
    from a lt3 consider "k = 0" | "k = 1" | "k = 2" by blast
    then show "fst (launchLoop w opts 3 0) = Inr (Some b) \<and>
           snd (launchLoop w opts 3 0) = concat (map (retried opts) [0..<k]) @ [Launch opts]"
    proof cases
      case 1 with a show ?thesis by (simp add: launchLoop_3)
    next
      case 2 with a show ?thesis
        by (auto simp add: launchLoop_3 transientFailure_def split: sum.splits)
    next
      case 3 with a show ?thesis
        by (auto simp add: launchLoop_3 transientFailure_def numeral_2_eq_2 less_Suc_eq split: sum.splits)
    qed
  qed
  have c3: "\<forall>k err. k < 3 \<and> (\<forall>j<k. transientFailure w j) \<and> puppeteerLaunch w k = Inl err \<and> \<not> isTransient err \<longrightarrow>
           fst (launchLoop w opts 3 0) = Inl err \<and>
           snd (launchLoop w opts 3 0) = concat (map (retried opts) [0..<k]) @ [Launch opts]"
  proof (intro allI impI)
    fix k err
    assume a: "k < 3 \<and> (\<forall>j<k. transientFailure w j) \<and> puppeteerLaunch w k = Inl err \<and> \<not> isTransient err"
    from a lt3 consider "k = 0" | "k = 1" | "k = 2" by blast
    then show "fst (launchLoop w opts 3 0) = Inl err \<and>
           snd (launchLoop w opts 3 0) = concat (map (retried opts) [0..<k]) @ [Launch opts]"
    proof cases
      case 1 with a show ?thesis by (simp add: launchLoop_3)
    next
      case 2 with a show ?thesis
        by (auto simp add: launchLoop_3 transientFailure_def split: sum.splits)
    next
      case 3 with a show ?thesis
        by (auto simp add: launchLoop_3 transientFailure_def numeral_2_eq_2 less_Suc_eq split: sum.splits)
    qed
  qed
  have c4: "\<forall>err. (\<forall>j<3. transientFailure w j) \<and> puppeteerLaunch w 2 = Inl err \<longrightarrow>
           fst (launchLoop w opts 3 0) = Inl err \<and>
           snd (launchLoop w opts 3 0) = retried opts 0 @ retried opts 1 @ [Launch opts]"
    unfolding all3 by (auto simp add: launchLoop_3 transientFailure_def split: sum.splits)
  show ?thesis
    unfolding Let_def base opts_def[symmetric] using c1 c2 c3 c4 by blast
qed

theorem launch_retry_witness:
  "getExecutablePath exampleWorld = Inr ''/usr/bin/google-chrome'' \<and>
   baseLaunchBrowser exampleWorld 3 =
     (Inr (Some 1),
      [Launch \<lparr>productionSettings = False, executablePath = ''/usr/bin/google-chrome''\<rparr>,
       ConsoleWarn ''Launch failed (attempt 1), retrying in 200ms...'',
       Sleep 200,
       Launch \<lparr>productionSettings = False, executablePath = ''/usr/bin/google-chrome''\<rparr>,
       ConsoleWarn ''Launch failed (attempt 2), retrying in 200ms...'',
       Sleep 200,
       Launch \<lparr>productionSettings = False, executablePath = ''/usr/bin/google-chrome''\<rparr>]) \<and>
   baseLaunchBrowser (exampleWorld\<lparr>puppeteerLaunch := \<lambda>k. Inl renderError\<rparr>) 3 =
     (Inl renderError,
      [Launch \<lparr>productionSettings = False, executablePath = ''/usr/bin/google-chrome''\<rparr>]) \<and>
   fst (baseLaunchBrowser (exampleWorld\<lparr>puppeteerLaunch := \<lambda>k. Inl transientError\<rparr>) 3) =
     Inl transientError \<and>
   length (filter isLaunch
     (snd (baseLaunchBrowser (exampleWorld\<lparr>puppeteerLaunch := \<lambda>k. Inl transientError\<rparr>) 3))) = 3"
proof -
  let ?p = "''/usr/bin/google-chrome''"
  let ?o = "\<lparr>productionSettings = False, executablePath = ?p\<rparr>"
  let ?w1 = "exampleWorld\<lparr>puppeteerLaunch := \<lambda>k. Inl renderError\<rparr>"
  let ?w2 = "exampleWorld\<lparr>puppeteerLaunch := \<lambda>k. Inl transientError\<rparr>"
  have tr: "isTransient transientError" "\<not> isTransient renderError"
    by (simp_all add: isTransient_def transientError_def renderError_def)
  have h: "getExecutablePath exampleWorld = Inr ?p"
    by (simp add: getExecutablePath_def probeLocalPaths_def localPaths_def exampleWorld_def)
  have h1: "getExecutablePath ?w1 = Inr ?p"
    by (simp add: getExecutablePath_def probeLocalPaths_def localPaths_def exampleWorld_def)
  have h2: "getExecutablePath ?w2 = Inr ?p"
    by (simp add: getExecutablePath_def probeLocalPaths_def localPaths_def exampleWorld_def)
  have env: "(NODE_ENV exampleWorld = Some ''production'') = False"
    "(NODE_ENV ?w1 = Some ''production'') = False" "(NODE_ENV ?w2 = Some ''production'') = False"
    by (simp_all add: exampleWorld_def)
  note A = launch_retry[OF h, unfolded Let_def env]
  have a: "2 < (3::nat) \<and> (\<forall>j<2. transientFailure exampleWorld j) \<and>
           puppeteerLaunch exampleWorld 2 = Inr 1"
    by (simp add: exampleWorld_def transientFailure_def tr)
  from A[THEN conjunct2, THEN conjunct1, rule_format, OF a]
  have r0: "baseLaunchBrowser exampleWorld 3 = (Inr (Some 1), retried ?o 0 @ retried ?o 1 @ [Launch ?o])"
    by (simp add: prod_eq_iff numeral_2_eq_2)
  note B = launch_retry[OF h1, unfolded Let_def env]
  have b: "0 < (3::nat) \<and> (\<forall>j<0. transientFailure ?w1 j) \<and>
           puppeteerLaunch ?w1 0 = Inl renderError \<and> \<not> isTransient renderError"
    by (simp add: tr)
  from B[THEN conjunct2, THEN conjunct2, THEN conjunct1, rule_format, OF b]
  have r1: "baseLaunchBrowser ?w1 3 = (Inl renderError, [Launch ?o])"
    by (simp add: prod_eq_iff)
  note C = launch_retry[OF h2, unfolded Let_def env]
  have c: "(\<forall>j<3. transientFailure ?w2 j) \<and> puppeteerLaunch ?w2 2 = Inl transientError"
    by (simp add: transientFailure_def tr)
  from C[THEN conjunct2, THEN conjunct2, THEN conjunct2, rule_format, OF c]
  have r2: "baseLaunchBrowser ?w2 3 = (Inl transientError, retried ?o 0 @ retried ?o 1 @ [Launch ?o])"
    by (simp add: prod_eq_iff)
  show ?thesis
    unfolding r0 r1 r2 h
    by (simp add: retried_def launchWarning_def digitsOf.simps isLaunch_def)
qed

section \<open>Closing the browser\<close>

lemma tryBlock_launched:
  assumes "fst (baseLaunchBrowser w 3) = Inr (Some b)"
  shows "fst (fst (tryBlock w doc)) = Some b"
    and "snd (fst (tryBlock w doc)) =
           (case renderFailure w doc of Some e \<Rightarrow> Inl e | None \<Rightarrow> pdf w doc)"
    and "\<exists>page. snd (tryBlock w doc) = snd (baseLaunchBrowser w 3) @ page \<and> filter isClose page = []"
  using assms
  by (auto simp add: tryBlock_def renderFailure_def isClose_def
        split: prod.splits sum.splits option.splits)

lemma launchLoop_no_close: "filter isClose (snd (launchLoop w opts 3 0)) = []"
  by (simp add: launchLoop_3 retried_def isClose_def split: sum.splits)

lemma baseLaunchBrowser_no_close: "filter isClose (snd (baseLaunchBrowser w 3)) = []"
  by (simp add: baseLaunchBrowser_def launchLoop_no_close split: sum.splits)

lemma renderToPdf_released:
  assumes "fst (baseLaunchBrowser w 3) = Inr (Some b)"
  shows "length (filter isClose (snd (renderToPdf label w doc))) = 1"
    and "last (snd (renderToPdf label w doc)) = Close b"
    and "renderFailure w doc = Some e \<Longrightarrow>
           \<exists>pre. snd (renderToPdf label w doc) = pre @ [ConsoleErrorWith label e, Close b]"
    and "renderFailure w doc = Some e \<Longrightarrow> browserClose w = None \<Longrightarrow>
           fst (renderToPdf label w doc) = Inl e"
    and "browserClose w = Some e' \<Longrightarrow> fst (renderToPdf label w doc) = Inl e'"
proof -
  note tb = tryBlock_launched[OF assms, of doc]
  from tb(3) obtain page where page: "snd (tryBlock w doc) = snd (baseLaunchBrowser w 3) @ page"
    "filter isClose page = []" by blast
  show "length (filter isClose (snd (renderToPdf label w doc))) = 1"
    by (simp add: renderToPdf_def Let_def tb(1) page baseLaunchBrowser_no_close isClose_def
          split: sum.splits option.splits)
  show "last (snd (renderToPdf label w doc)) = Close b"
    by (simp add: renderToPdf_def Let_def tb(1) split: sum.splits option.splits)
  show "\<exists>pre. snd (renderToPdf label w doc) = pre @ [ConsoleErrorWith label e, Close b]"
    if "renderFailure w doc = Some e"
    using that by (simp add: renderToPdf_def Let_def tb(1) tb(2) split: option.splits)
  show "fst (renderToPdf label w doc) = Inl e"
    if "renderFailure w doc = Some e" "browserClose w = None"
    using that by (simp add: renderToPdf_def Let_def tb(1) tb(2))
  show "fst (renderToPdf label w doc) = Inl e'"
    if "browserClose w = Some e'"
    using that by (simp add: renderToPdf_def Let_def tb(1))
qed

lemma renderToPdf_value:
  assumes "fst (baseLaunchBrowser w 3) = Inr (Some b)" and "browserClose w = None"
  shows "fst (renderToPdf label w doc) =
           (case renderFailure w doc of Some e \<Rightarrow> Inl e | None \<Rightarrow> pdf w doc)"
  using tryBlock_launched(1,2)[OF assms(1), of doc] assms(2)
  by (simp add: renderToPdf_def Let_def)

lemma example_launch:
  "fst (baseLaunchBrowser exampleWorld 3) = Inr (Some 1)"
  "fst (baseLaunchBrowser pdfFailsWorld 3) = Inr (Some 1)"
  "fst (baseLaunchBrowser sendFailsWorld 3) = Inr (Some 1)"
  by (simp_all add: baseLaunchBrowser_def getExecutablePath_def probeLocalPaths_def
        localPaths_def launchLoop_3 pdfFailsWorld_def sendFailsWorld_def exampleWorld_def
        isTransient_def transientError_def)

lemma example_close:
  "browserClose exampleWorld = None" "browserClose pdfFailsWorld = None"
  "browserClose sendFailsWorld = None"
  by (simp_all add: pdfFailsWorld_def sendFailsWorld_def exampleWorld_def)

lemma example_render:
  "renderFailure exampleWorld doc = None"
  "renderFailure sendFailsWorld doc = None"
  "renderFailure pdfFailsWorld doc = Some renderError"
  "pdf exampleWorld doc = Inr [37, 80, 68, 70]"
  "pdf sendFailsWorld doc = Inr [37, 80, 68, 70]"
  by (simp_all add: renderFailure_def pdfFailsWorld_def sendFailsWorld_def exampleWorld_def)

lemma example_generate:
  "fst (generateResultPdf exampleWorld d) = Inr [37, 80, 68, 70]"
  "fst (generateAttendancePdf exampleWorld d) = Inr [37, 80, 68, 70]"
  "fst (generateResultPdf sendFailsWorld d) = Inr [37, 80, 68, 70]"
  "fst (generateAttendancePdf sendFailsWorld d) = Inr [37, 80, 68, 70]"
  "fst (generateResultPdf pdfFailsWorld d) = Inl renderError"
  "fst (generateAttendancePdf pdfFailsWorld d) = Inl renderError"
  by (simp_all add: generateResultPdf_def generateAttendancePdf_def
        renderToPdf_value[OF example_launch(1) example_close(1)]
        renderToPdf_value[OF example_launch(2) example_close(2)]
        renderToPdf_value[OF example_launch(3) example_close(3)] example_render)

lemma closeFails_launch: "fst (baseLaunchBrowser closeFailsWorld 3) = Inr (Some 1)"
  by (simp add: baseLaunchBrowser_def getExecutablePath_def probeLocalPaths_def
        localPaths_def launchLoop_3 closeFailsWorld_def pdfFailsWorld_def exampleWorld_def
        isTransient_def transientError_def)

lemma closeFails_close: "browserClose closeFailsWorld = Some closeError"
  by (simp add: closeFailsWorld_def)

lemma closeFails_render: "renderFailure closeFailsWorld doc = Some renderError"
  by (simp add: renderFailure_def closeFailsWorld_def pdfFailsWorld_def exampleWorld_def)

text \<open>
  \<^bold>\<open>C1\<close> as the claim states it fails.  The browser starts, the export to PDF throws
  \<open>renderError\<close>, and \<open>browser.close()\<close> in the \<open>finally\<close> block throws \<open>closeError\<close>: the
  caller of \<open>generateResultPdf\<close> receives \<open>closeError\<close>, and the exception raised by the
  export does not reach it.
\<close>

theorem close_error_replaces_counterexample:
  "fst (baseLaunchBrowser closeFailsWorld 3) = Inr (Some 1) \<and>
   renderFailure closeFailsWorld
     (ResultHtml (resultDoc (numberToString closeFailsWorld) exampleData)) = Some renderError \<and>
   browserClose closeFailsWorld = Some closeError \<and>
   fst (generateResultPdf closeFailsWorld exampleData) = Inl closeError \<and>
   fst (generateResultPdf closeFailsWorld exampleData) \<noteq> Inl renderError"
proof -
  have r: "fst (generateResultPdf closeFailsWorld exampleData) = Inl closeError"
    unfolding generateResultPdf_def
    by (rule renderToPdf_released(5)[OF closeFails_launch closeFails_close])
  have n: "fst (generateResultPdf closeFailsWorld exampleData) \<noteq> Inl renderError"
    unfolding r by (simp add: closeError_def renderError_def)
  show ?thesis
    by (rule conjI[OF closeFails_launch conjI[OF closeFails_render conjI[OF closeFails_close
          conjI[OF r n]]]])
qed

text \<open>
  \<^bold>\<open>C1\<close>, amended.  When the launch in \<open>generateResultPdf\<close> or \<open>generateAttendancePdf\<close> has
  given a browser, \<open>browser.close()\<close> is called exactly once and is the last thing the
  function does, whichever way the \<open>try\<close> block was left.  An exception raised by page
  rendering or PDF export is logged, the browser is closed after that, and when the close
  has completed normally the exception is what the caller receives.  When \<open>browser.close()\<close>
  itself throws, what it throws is what the caller receives, whatever came before.
\<close>

theorem browser_released_once:
  assumes "fst (baseLaunchBrowser w 3) = Inr (Some b)"
  shows
   "length (filter isClose (snd (generateResultPdf w data))) = 1 \<and>
    last (snd (generateResultPdf w data)) = Close b \<and>
    (\<forall>e. renderFailure w (ResultHtml (resultDoc (numberToString w) data)) = Some e \<longrightarrow>
       (\<exists>pre. snd (generateResultPdf w data) =
                pre @ [ConsoleErrorWith ''Puppeteer Launch Error:'' e, Close b]) \<and>
       (browserClose w = None \<longrightarrow> fst (generateResultPdf w data) = Inl e)) \<and>
    length (filter isClose (snd (generateAttendancePdf w data))) = 1 \<and>
    last (snd (generateAttendancePdf w data)) = Close b \<and>
    (\<forall>e. renderFailure w
            (AttendanceHtml (attendanceDoc (numberToString w) (toLocaleString w) data)) = Some e \<longrightarrow>
       (\<exists>pre. snd (generateAttendancePdf w data) =
                pre @ [ConsoleErrorWith ''Puppeteer Launch Error (Attendance):'' e, Close b]) \<and>
       (browserClose w = None \<longrightarrow> fst (generateAttendancePdf w data) = Inl e)) \<and>
    (\<forall>e'. browserClose w = Some e' \<longrightarrow>
       fst (generateResultPdf w data) = Inl e' \<and> fst (generateAttendancePdf w data) = Inl e')"
  unfolding generateResultPdf_def generateAttendancePdf_def
  using renderToPdf_released[OF assms] by blast

theorem browser_released_once_witness:
  "fst (baseLaunchBrowser pdfFailsWorld 3) = Inr (Some 1) \<and>
   fst (generateResultPdf pdfFailsWorld exampleData) = Inl renderError \<and>
   length (filter isClose (snd (generateResultPdf pdfFailsWorld exampleData))) = 1 \<and>
   last (snd (generateResultPdf pdfFailsWorld exampleData)) = Close 1 \<and>
   fst (generateAttendancePdf pdfFailsWorld exampleData) = Inl renderError \<and>
   length (filter isClose (snd (generateAttendancePdf pdfFailsWorld exampleData))) = 1 \<and>
   last (snd (generateAttendancePdf pdfFailsWorld exampleData)) = Close 1 \<and>
   fst (baseLaunchBrowser closeFailsWorld 3) = Inr (Some 1) \<and>
   fst (generateAttendancePdf closeFailsWorld exampleData) = Inl closeError \<and>
   length (filter isClose (snd (generateAttendancePdf closeFailsWorld exampleData))) = 1 \<and>
   last (snd (generateAttendancePdf closeFailsWorld exampleData)) = Close 1"
proof -
  note A = browser_released_once[OF example_launch(2), of exampleData]
  note r1 = A[THEN conjunct2, THEN conjunct2, THEN conjunct1, rule_format,
              OF example_render(3), THEN conjunct2, rule_format, OF example_close(2)]
  note r2 = A[THEN conjunct2, THEN conjunct2, THEN conjunct2, THEN conjunct2, THEN conjunct2,
              THEN conjunct1, rule_format, OF example_render(3), THEN conjunct2, rule_format,
              OF example_close(2)]
  note c1 = A[THEN conjunct1]
  note l1 = A[THEN conjunct2, THEN conjunct1]
  note c2 = A[THEN conjunct2, THEN conjunct2, THEN conjunct2, THEN conjunct1]
  note l2 = A[THEN conjunct2, THEN conjunct2, THEN conjunct2, THEN conjunct2, THEN conjunct1]
  note B = browser_released_once[OF closeFails_launch, of exampleData]
  note r3 = B[THEN conjunct2, THEN conjunct2, THEN conjunct2, THEN conjunct2, THEN conjunct2,
              THEN conjunct2, rule_format, OF closeFails_close, THEN conjunct2]
  note c3 = B[THEN conjunct2, THEN conjunct2, THEN conjunct2, THEN conjunct1]
  note l3 = B[THEN conjunct2, THEN conjunct2, THEN conjunct2, THEN conjunct2, THEN conjunct1]
  show ?thesis
    by (rule conjI[OF example_launch(2) conjI[OF r1 conjI[OF c1 conjI[OF l1 conjI[OF r2
          conjI[OF c2 conjI[OF l2 conjI[OF closeFails_launch conjI[OF r3 conjI[OF c3 l3]]]]]]]]]])
qed

section \<open>The branches of the worker\<close>

lemma launchLoop_no_send: "filter isSendMail (snd (launchLoop w opts 3 0)) = []"
  by (simp add: launchLoop_3 retried_def isSendMail_def split: sum.splits)

lemma baseLaunchBrowser_no_send: "filter isSendMail (snd (baseLaunchBrowser w 3)) = []"
  by (simp add: baseLaunchBrowser_def launchLoop_no_send split: sum.splits)

lemma tryBlock_no_send: "filter isSendMail (snd (tryBlock w doc)) = []"
proof -
  obtain r tr where b: "baseLaunchBrowser w 3 = (r, tr)"
    by (cases "baseLaunchBrowser w 3")
  with baseLaunchBrowser_no_send[of w] have "filter isSendMail tr = []"
    by simp
  then show ?thesis
    by (simp add: tryBlock_def b isSendMail_def split: sum.splits option.splits)
qed

lemma renderToPdf_no_send: "filter isSendMail (snd (renderToPdf label w doc)) = []"
  by (simp add: renderToPdf_def Let_def tryBlock_no_send isSendMail_def
        split: sum.splits option.splits)

lemma report_job_results:
  assumes "type (jobData job) = ''RESULTS''"
  shows "(fst (worker w job) = Inr () \<longrightarrow> length (filter isSendMail (snd (worker w job))) = 1) \<and>
    (\<forall>e. fst (generateResultPdf w (jobData job)) = Inl e \<longrightarrow>
           fst (worker w job) = Inl e \<and> length (filter isSendMail (snd (worker w job))) = 0) \<and>
    (\<forall>pdfBuffer e. fst (generateResultPdf w (jobData job)) = Inr pdfBuffer \<and>
           sendMail w (resultMail (jobData job) pdfBuffer) = Some e \<longrightarrow> fst (worker w job) = Inl e) \<and>
    (\<forall>e. fst (worker w job) = Inl e \<longrightarrow>
           last (snd (worker w job)) =
             ConsoleError (''Failed to generate/send Result PDF for '' @ recipient (jobData job)
                           @ '': '' @ message e)) \<and>
    ((fst (worker w job) = Inr ()) =
           (\<exists>pdfBuffer. fst (generateResultPdf w (jobData job)) = Inr pdfBuffer \<and>
                         sendMail w (resultMail (jobData job) pdfBuffer) = None))"
proof -
  obtain r tr where g: "generateResultPdf w (jobData job) = (r, tr)"
    by (cases "generateResultPdf w (jobData job)")
  have "filter isSendMail (snd (generateResultPdf w (jobData job))) = []"
    by (simp add: generateResultPdf_def renderToPdf_no_send)
  then have ns: "filter isSendMail tr = []"
    by (simp add: g)
  note W = worker_def Let_def assms g
  have p1: "fst (worker w job) = Inr () \<longrightarrow> length (filter isSendMail (snd (worker w job))) = 1"
    using ns by (simp add: W isSendMail_def split: sum.splits option.splits)
  have p2: "\<forall>e. fst (generateResultPdf w (jobData job)) = Inl e \<longrightarrow>
           fst (worker w job) = Inl e \<and> length (filter isSendMail (snd (worker w job))) = 0"
    using ns by (simp add: W isSendMail_def split: sum.splits option.splits)
  have p3: "\<forall>pdfBuffer e. fst (generateResultPdf w (jobData job)) = Inr pdfBuffer \<and>
           sendMail w (resultMail (jobData job) pdfBuffer) = Some e \<longrightarrow> fst (worker w job) = Inl e"
    by (simp add: W split: sum.splits option.splits)
  have p4: "\<forall>e. fst (worker w job) = Inl e \<longrightarrow>
           last (snd (worker w job)) =
             ConsoleError (''Failed to generate/send Result PDF for '' @ recipient (jobData job)
                           @ '': '' @ message e)"
    by (simp add: W split: sum.splits option.splits)
  have p5: "(fst (worker w job) = Inr ()) =
           (\<exists>pdfBuffer. fst (generateResultPdf w (jobData job)) = Inr pdfBuffer \<and>
                         sendMail w (resultMail (jobData job) pdfBuffer) = None)"
    by (auto simp add: W split: sum.splits option.splits)
  show ?thesis
    by (rule conjI[OF p1 conjI[OF p2 conjI[OF p3 conjI[OF p4 p5]]]])
qed

lemma report_job_attendance:
  assumes "type (jobData job) = ''ATTENDANCE_REPORT''"
  shows "(fst (worker w job) = Inr () \<longrightarrow> length (filter isSendMail (snd (worker w job))) = 1) \<and>
    (\<forall>e. fst (generateAttendancePdf w (jobData job)) = Inl e \<longrightarrow>
           fst (worker w job) = Inl e \<and> length (filter isSendMail (snd (worker w job))) = 0) \<and>
    (\<forall>pdfBuffer e. fst (generateAttendancePdf w (jobData job)) = Inr pdfBuffer \<and>
           sendMail w (attendanceMail (jobData job) pdfBuffer) = Some e \<longrightarrow> fst (worker w job) = Inl e) \<and>
    (\<forall>e. fst (worker w job) = Inl e \<longrightarrow>
           last (snd (worker w job)) =
             ConsoleError (''Failed to generate/send Attendance PDF for '' @ recipient (jobData job)
                           @ '': '' @ message e)) \<and>
    ((fst (worker w job) = Inr ()) =
           (\<exists>pdfBuffer. fst (generateAttendancePdf w (jobData job)) = Inr pdfBuffer \<and>
                         sendMail w (attendanceMail (jobData job) pdfBuffer) = None))"
proof -
  obtain r tr where g: "generateAttendancePdf w (jobData job) = (r, tr)"
    by (cases "generateAttendancePdf w (jobData job)")
  have "filter isSendMail (snd (generateAttendancePdf w (jobData job))) = []"
    by (simp add: generateAttendancePdf_def renderToPdf_no_send)
  then have ns: "filter isSendMail tr = []"
    by (simp add: g)
  note W = worker_def Let_def assms g
  have p1: "fst (worker w job) = Inr () \<longrightarrow> length (filter isSendMail (snd (worker w job))) = 1"
    using ns by (simp add: W isSendMail_def split: sum.splits option.splits)
  have p2: "\<forall>e. fst (generateAttendancePdf w (jobData job)) = Inl e \<longrightarrow>
           fst (worker w job) = Inl e \<and> length (filter isSendMail (snd (worker w job))) = 0"
    using ns by (simp add: W isSendMail_def split: sum.splits option.splits)
  have p3: "\<forall>pdfBuffer e. fst (generateAttendancePdf w (jobData job)) = Inr pdfBuffer \<and>
           sendMail w (attendanceMail (jobData job) pdfBuffer) = Some e \<longrightarrow> fst (worker w job) = Inl e"
    by (simp add: W split: sum.splits option.splits)
  have p4: "\<forall>e. fst (worker w job) = Inl e \<longrightarrow>
           last (snd (worker w job)) =
             ConsoleError (''Failed to generate/send Attendance PDF for '' @ recipient (jobData job)
                           @ '': '' @ message e)"
    by (simp add: W split: sum.splits option.splits)
  have p5: "(fst (worker w job) = Inr ()) =
           (\<exists>pdfBuffer. fst (generateAttendancePdf w (jobData job)) = Inr pdfBuffer \<and>
                         sendMail w (attendanceMail (jobData job) pdfBuffer) = None)"
    by (auto simp add: W split: sum.splits option.splits)
  show ?thesis
    by (rule conjI[OF p1 conjI[OF p2 conjI[OF p3 conjI[OF p4 p5]]]])
qed

text \<open>
  \<^bold>\<open>C3.\<close>  For a \<open>RESULTS\<close> and for an \<open>ATTENDANCE_REPORT\<close> job: when the handler
  returns, exactly one message was handed to the mail transport; when the PDF function
  throws, the handler throws the same error and no message was handed over; when the
  transport throws, the handler throws that error; whenever the handler throws, the last
  thing it did was to log the failure with the recipient and the error's message; and it
  returns only when both the PDF and the send went through.
\<close>

theorem report_job_delivery:
  "(type (jobData job) = ''RESULTS'' \<longrightarrow>
      (fst (worker w job) = Inr () \<longrightarrow> length (filter isSendMail (snd (worker w job))) = 1) \<and>
      (\<forall>e. fst (generateResultPdf w (jobData job)) = Inl e \<longrightarrow>
           fst (worker w job) = Inl e \<and> length (filter isSendMail (snd (worker w job))) = 0) \<and>
      (\<forall>pdfBuffer e. fst (generateResultPdf w (jobData job)) = Inr pdfBuffer \<and>
           sendMail w (resultMail (jobData job) pdfBuffer) = Some e \<longrightarrow> fst (worker w job) = Inl e) \<and>
      (\<forall>e. fst (worker w job) = Inl e \<longrightarrow>
           last (snd (worker w job)) =
             ConsoleError (''Failed to generate/send Result PDF for '' @ recipient (jobData job)
                           @ '': '' @ message e)) \<and>
      ((fst (worker w job) = Inr ()) =
           (\<exists>pdfBuffer. fst (generateResultPdf w (jobData job)) = Inr pdfBuffer \<and>
                         sendMail w (resultMail (jobData job) pdfBuffer) = None))) \<and>
   (type (jobData job) = ''ATTENDANCE_REPORT'' \<longrightarrow>
      (fst (worker w job) = Inr () \<longrightarrow> length (filter isSendMail (snd (worker w job))) = 1) \<and>
      (\<forall>e. fst (generateAttendancePdf w (jobData job)) = Inl e \<longrightarrow>
           fst (worker w job) = Inl e \<and> length (filter isSendMail (snd (worker w job))) = 0) \<and>
      (\<forall>pdfBuffer e. fst (generateAttendancePdf w (jobData job)) = Inr pdfBuffer \<and>
           sendMail w (attendanceMail (jobData job) pdfBuffer) = Some e \<longrightarrow> fst (worker w job) = Inl e) \<and>
      (\<forall>e. fst (worker w job) = Inl e \<longrightarrow>
           last (snd (worker w job)) =
             ConsoleError (''Failed to generate/send Attendance PDF for '' @ recipient (jobData job)
                           @ '': '' @ message e)) \<and>
      ((fst (worker w job) = Inr ()) =
           (\<exists>pdfBuffer. fst (generateAttendancePdf w (jobData job)) = Inr pdfBuffer \<and>
                         sendMail w (attendanceMail (jobData job) pdfBuffer) = None)))"
  by (rule conjI[OF impI[OF report_job_results] impI[OF report_job_attendance]])

theorem report_job_delivery_witness:
  "fst (worker exampleWorld exampleJob) = Inr () \<and>
   length (filter isSendMail (snd (worker exampleWorld exampleJob))) = 1 \<and>
   fst (worker pdfFailsWorld exampleJob) = Inl renderError \<and>
   length (filter isSendMail (snd (worker pdfFailsWorld exampleJob))) = 0 \<and>
   last (snd (worker pdfFailsWorld exampleJob)) =
     ConsoleError ''Failed to generate/send Result PDF for student@example.org: Printing failed'' \<and>
   fst (worker sendFailsWorld exampleJob) = Inl sendError \<and>
   fst (worker exampleWorld attendanceJob) = Inr () \<and>
   length (filter isSendMail (snd (worker exampleWorld attendanceJob))) = 1 \<and>
   fst (worker pdfFailsWorld attendanceJob) = Inl renderError \<and>
   length (filter isSendMail (snd (worker pdfFailsWorld attendanceJob))) = 0 \<and>
   last (snd (worker pdfFailsWorld attendanceJob)) =
     ConsoleError ''Failed to generate/send Attendance PDF for student@example.org: Printing failed'' \<and>
   fst (worker sendFailsWorld attendanceJob) = Inl sendError"
proof -
  have ty: "type (jobData exampleJob) = ''RESULTS''"
    by (simp add: exampleJob_def exampleData_def)
  have ta: "type (jobData attendanceJob) = ''ATTENDANCE_REPORT''"
    by (simp add: attendanceJob_def)
  note R = report_job_delivery[where job = exampleJob and w = exampleWorld,
             THEN conjunct1, THEN mp, OF ty]
  note RF = report_job_delivery[where job = exampleJob and w = pdfFailsWorld,
             THEN conjunct1, THEN mp, OF ty]
  note RS = report_job_delivery[where job = exampleJob and w = sendFailsWorld,
             THEN conjunct1, THEN mp, OF ty]
  note A = report_job_delivery[where job = attendanceJob and w = exampleWorld,
             THEN conjunct2, THEN mp, OF ta]
  note AF = report_job_delivery[where job = attendanceJob and w = pdfFailsWorld,
             THEN conjunct2, THEN mp, OF ta]
  note AS = report_job_delivery[where job = attendanceJob and w = sendFailsWorld,
             THEN conjunct2, THEN mp, OF ta]
  have sm: "\<And>m. sendMail exampleWorld m = None"
    by (simp add: exampleWorld_def)
  have ex: "\<exists>pdfBuffer. fst (generateResultPdf exampleWorld (jobData exampleJob)) = Inr pdfBuffer \<and>
              sendMail exampleWorld (resultMail (jobData exampleJob) pdfBuffer) = None"
    by (simp add: example_generate sm)
  have r1: "fst (worker exampleWorld exampleJob) = Inr ()"
    using R[THEN conjunct2, THEN conjunct2, THEN conjunct2, THEN conjunct2] ex by (rule iffD2)
  have r2: "length (filter isSendMail (snd (worker exampleWorld exampleJob))) = 1"
    using R[THEN conjunct1] r1 by (rule mp)
  have r34: "fst (worker pdfFailsWorld exampleJob) = Inl renderError \<and>
             length (filter isSendMail (snd (worker pdfFailsWorld exampleJob))) = 0"
    by (rule RF[THEN conjunct2, THEN conjunct1, rule_format, OF example_generate(5)])
  have r5: "last (snd (worker pdfFailsWorld exampleJob)) =
     ConsoleError ''Failed to generate/send Result PDF for student@example.org: Printing failed''"
    using RF[THEN conjunct2, THEN conjunct2, THEN conjunct2, THEN conjunct1, rule_format,
             OF r34[THEN conjunct1]]
    by (simp add: exampleJob_def exampleData_def renderError_def)
  have sms: "\<And>m. sendMail sendFailsWorld m = Some sendError"
    by (simp add: sendFailsWorld_def)
  have sf: "fst (generateResultPdf sendFailsWorld (jobData exampleJob)) = Inr [37, 80, 68, 70] \<and>
            sendMail sendFailsWorld (resultMail (jobData exampleJob) [37, 80, 68, 70]) = Some sendError"
    by (simp add: example_generate sms)
  have r6: "fst (worker sendFailsWorld exampleJob) = Inl sendError"
    by (rule RS[THEN conjunct2, THEN conjunct2, THEN conjunct1, rule_format, OF sf])
  have exa: "\<exists>pdfBuffer. fst (generateAttendancePdf exampleWorld (jobData attendanceJob)) = Inr pdfBuffer \<and>
              sendMail exampleWorld (attendanceMail (jobData attendanceJob) pdfBuffer) = None"
    by (simp add: example_generate sm)
  have a1: "fst (worker exampleWorld attendanceJob) = Inr ()"
    using A[THEN conjunct2, THEN conjunct2, THEN conjunct2, THEN conjunct2] exa by (rule iffD2)
  have a2: "length (filter isSendMail (snd (worker exampleWorld attendanceJob))) = 1"
    using A[THEN conjunct1] a1 by (rule mp)
  have a34: "fst (worker pdfFailsWorld attendanceJob) = Inl renderError \<and>
             length (filter isSendMail (snd (worker pdfFailsWorld attendanceJob))) = 0"
    by (rule AF[THEN conjunct2, THEN conjunct1, rule_format, OF example_generate(6)])
  have a5: "last (snd (worker pdfFailsWorld attendanceJob)) =
     ConsoleError ''Failed to generate/send Attendance PDF for student@example.org: Printing failed''"
    using AF[THEN conjunct2, THEN conjunct2, THEN conjunct2, THEN conjunct1, rule_format,
             OF a34[THEN conjunct1]]
    by (simp add: attendanceJob_def exampleData_def renderError_def)
  have sfa: "fst (generateAttendancePdf sendFailsWorld (jobData attendanceJob)) = Inr [37, 80, 68, 70] \<and>
            sendMail sendFailsWorld (attendanceMail (jobData attendanceJob) [37, 80, 68, 70]) = Some sendError"
    by (simp add: example_generate sms)
  have a6: "fst (worker sendFailsWorld attendanceJob) = Inl sendError"
    by (rule AS[THEN conjunct2, THEN conjunct2, THEN conjunct1, rule_format, OF sfa])
  show ?thesis
    using r1 r2 r34 r5 r6 a1 a2 a34 a5 a6 by simp
qed

text \<open>
  \<^bold>\<open>C9.\<close>  A job whose type is none of \<open>EMAIL\<close>, \<open>RESULTS\<close> and \<open>ATTENDANCE_REPORT\<close>
  makes the handler log its first line and return: nothing is thrown and nothing is sent.
\<close>

theorem unknown_type_returns:
  assumes "type (jobData job) \<noteq> ''EMAIL''"
    and "type (jobData job) \<noteq> ''RESULTS''"
    and "type (jobData job) \<noteq> ''ATTENDANCE_REPORT''"
  shows "worker w job =
           (Inr (), [ConsoleLog (''Processing job '' @ jobId job @ '': '' @ jobName job)]) \<and>
         filter isSendMail (snd (worker w job)) = []"
  using assms by (simp add: worker_def Let_def isSendMail_def)

theorem unknown_type_returns_witness:
  "worker exampleWorld unknownJob = (Inr (), [ConsoleLog ''Processing job 17: notify'']) \<and>
   filter isSendMail (snd (worker exampleWorld unknownJob)) = []"
proof -
  have t: "type (jobData unknownJob) \<noteq> ''EMAIL''" "type (jobData unknownJob) \<noteq> ''RESULTS''"
    "type (jobData unknownJob) \<noteq> ''ATTENDANCE_REPORT''"
    by (simp_all add: unknownJob_def)
  have n: "''Processing job '' @ jobId unknownJob @ '': '' @ jobName unknownJob
             = ''Processing job 17: notify''"
    by (simp add: unknownJob_def exampleJob_def)
  from unknown_type_returns[OF t, of exampleWorld] show ?thesis
    unfolding n .
qed

text \<open>
  \<^bold>\<open>C10.\<close>  An \<open>EMAIL\<close> job whose \<open>html\<close> is the empty string sends one message, and its
  body is the default template around \<open><p>\<close>, the body text and \<open></p>\<close>: the same message
  as when \<open>html\<close> is absent.
\<close>

theorem empty_html_uses_template:
  assumes "type (jobData job) = ''EMAIL''" and "html (jobData job) = Some []"
  shows "filter isSendMail (snd (worker w job)) = [SendMail (emailMail (jobData job))] \<and>
         mailHtml (emailMail (jobData job)) =
           emailTemplate (subject (jobData job))
             (''<p>'' @ interpolate (body (jobData job)) @ ''</p>'') \<and>
         (\<forall>text. body (jobData job) = Some text \<longrightarrow>
            mailHtml (emailMail (jobData job)) =
              emailTemplate (subject (jobData job)) (''<p>'' @ text @ ''</p>'')) \<and>
         emailMail (jobData job) = emailMail ((jobData job)\<lparr>html := None\<rparr>)"
  using assms
  by (simp add: worker_def Let_def isSendMail_def emailMail_def interpolate_def split: option.splits)

theorem empty_html_uses_template_witness:
  "html (jobData emailJob) = Some [] \<and>
   filter isSendMail (snd (worker exampleWorld emailJob)) = [SendMail (emailMail (jobData emailJob))] \<and>
   mailHtml (emailMail (jobData emailJob)) = emailTemplate ''Results'' ''<p>Hello</p>''"
proof -
  have t: "type (jobData emailJob) = ''EMAIL''" and h: "html (jobData emailJob) = Some []"
    by (simp_all add: emailJob_def)
  have b: "body (jobData emailJob) = Some ''Hello''" and s: "subject (jobData emailJob) = ''Results''"
    by (simp_all add: emailJob_def exampleData_def)
  note E = empty_html_uses_template[OF t h, of exampleWorld]
  note E3 = E[THEN conjunct2, THEN conjunct2, THEN conjunct1, rule_format, OF b]
  from E[THEN conjunct1] E3 h show ?thesis
    by (simp add: s)
qed

section \<open>Resolving the executable\<close>

lemma probeLocalPaths_first:
  assumes "i < length localPaths" and "existsSync w (localPaths ! i)"
    and "\<forall>j<i. \<not> existsSync w (localPaths ! j)"
  shows "probeLocalPaths w = Inr (localPaths ! i)"
proof -
  have "find (existsSync w) localPaths = Some (localPaths ! i)"
    using assms by (auto simp add: find_Some_iff)
  then show ?thesis
    by (simp add: probeLocalPaths_def)
qed

lemma probeLocalPaths_none:
  assumes "\<forall>q\<in>set localPaths. \<not> existsSync w q"
  shows "probeLocalPaths w = Inl noBrowserError"
proof -
  have "find (existsSync w) localPaths = None"
    using assms by (simp add: find_None_iff)
  then show ?thesis
    by (simp add: probeLocalPaths_def)
qed

text \<open>
  \<^bold>\<open>C8\<close> as the claim states it fails: with the override variable set, its value is
  returned without a look at the file system.  Here the override names no file and
  \<open>/usr/bin/google-chrome\<close>, a path of the list, exists; the result is the override.
\<close>

theorem override_unchecked_counterexample:
  "NODE_ENV overrideWorld \<noteq> Some ''production'' \<and>
   PUPPETEER_EXECUTABLE_PATH overrideWorld = Some ''/opt/chrome'' \<and>
   \<not> existsSync overrideWorld ''/opt/chrome'' \<and>
   ''/usr/bin/google-chrome'' \<in> set localPaths \<and>
   existsSync overrideWorld ''/usr/bin/google-chrome'' \<and>
   getExecutablePath overrideWorld = Inr ''/opt/chrome''"
  by (simp add: overrideWorld_def exampleWorld_def localPaths_def getExecutablePath_def)

text \<open>
  \<^bold>\<open>C8\<close>, amended.  In production mode the result is what the Chromium package
  resolves.  Otherwise a non-empty override variable is returned as it is, with no
  existence check; without one, the result is the first path of the fixed list that
  exists, and the error is raised when none of them exists.
\<close>

theorem executable_resolution:
  "(NODE_ENV w = Some ''production'' \<longrightarrow> getExecutablePath w = chromiumExecutablePath w) \<and>
   (NODE_ENV w \<noteq> Some ''production'' \<longrightarrow>
      (\<forall>p. PUPPETEER_EXECUTABLE_PATH w = Some p \<and> p \<noteq> [] \<longrightarrow> getExecutablePath w = Inr p) \<and>
      (PUPPETEER_EXECUTABLE_PATH w = None \<or> PUPPETEER_EXECUTABLE_PATH w = Some [] \<longrightarrow>
         (\<forall>i<length localPaths.
            existsSync w (localPaths ! i) \<and> (\<forall>j<i. \<not> existsSync w (localPaths ! j)) \<longrightarrow>
            getExecutablePath w = Inr (localPaths ! i)) \<and>
         ((\<forall>q\<in>set localPaths. \<not> existsSync w q) \<longrightarrow> getExecutablePath w = Inl noBrowserError)))"
proof (intro conjI impI allI)
  show "getExecutablePath w = chromiumExecutablePath w" if "NODE_ENV w = Some ''production''"
    using that by (simp add: getExecutablePath_def)
  show "getExecutablePath w = Inr p"
    if "NODE_ENV w \<noteq> Some ''production''" "PUPPETEER_EXECUTABLE_PATH w = Some p \<and> p \<noteq> []" for p
    using that by (simp add: getExecutablePath_def)
  show "getExecutablePath w = Inr (localPaths ! i)"
    if "NODE_ENV w \<noteq> Some ''production''"
      "PUPPETEER_EXECUTABLE_PATH w = None \<or> PUPPETEER_EXECUTABLE_PATH w = Some []"
      "i < length localPaths"
      "existsSync w (localPaths ! i) \<and> (\<forall>j<i. \<not> existsSync w (localPaths ! j))" for i
    using that probeLocalPaths_first[of i w] by (auto simp add: getExecutablePath_def)
  show "getExecutablePath w = Inl noBrowserError"
    if "NODE_ENV w \<noteq> Some ''production''"
      "PUPPETEER_EXECUTABLE_PATH w = None \<or> PUPPETEER_EXECUTABLE_PATH w = Some []"
      "\<forall>q\<in>set localPaths. \<not> existsSync w q"
    using that probeLocalPaths_none[of w] by (auto simp add: getExecutablePath_def)
qed

theorem executable_resolution_witness:
  "getExecutablePath productionWorld = Inr ''/tmp/chromium'' \<and>
   getExecutablePath overrideWorld = Inr ''/opt/chrome'' \<and>
   getExecutablePath exampleWorld = Inr ''/usr/bin/google-chrome'' \<and>
   getExecutablePath noBrowserWorld = Inl noBrowserError"
proof -
  have p: "NODE_ENV productionWorld = Some ''production''"
    by (simp add: productionWorld_def)
  have r1: "getExecutablePath productionWorld = Inr ''/tmp/chromium''"
    using executable_resolution[of productionWorld, THEN conjunct1, THEN mp, OF p]
    by (simp add: productionWorld_def exampleWorld_def)
  have n: "NODE_ENV overrideWorld \<noteq> Some ''production''"
    "NODE_ENV exampleWorld \<noteq> Some ''production''"
    "NODE_ENV noBrowserWorld \<noteq> Some ''production''"
    by (simp_all add: overrideWorld_def noBrowserWorld_def exampleWorld_def)
  have o: "PUPPETEER_EXECUTABLE_PATH overrideWorld = Some ''/opt/chrome'' \<and> ''/opt/chrome'' \<noteq> []"
    by (simp add: overrideWorld_def)
  have r2: "getExecutablePath overrideWorld = Inr ''/opt/chrome''"
    by (rule executable_resolution[of overrideWorld, THEN conjunct2, THEN mp, OF n(1),
              THEN conjunct1, rule_format, OF o])
  have u: "PUPPETEER_EXECUTABLE_PATH exampleWorld = None \<or> PUPPETEER_EXECUTABLE_PATH exampleWorld = Some []"
    "PUPPETEER_EXECUTABLE_PATH noBrowserWorld = None \<or> PUPPETEER_EXECUTABLE_PATH noBrowserWorld = Some []"
    by (simp_all add: noBrowserWorld_def exampleWorld_def)
  have f: "existsSync exampleWorld (localPaths ! 3) \<and> (\<forall>j<3. \<not> existsSync exampleWorld (localPaths ! j))"
    by (simp add: exampleWorld_def localPaths_def numeral_3_eq_3 less_Suc_eq)
  have l: "3 < length localPaths"
    by (simp add: localPaths_def)
  have r3: "getExecutablePath exampleWorld = Inr (localPaths ! 3)"
    by (rule executable_resolution[of exampleWorld, THEN conjunct2, THEN mp, OF n(2),
              THEN conjunct2, THEN mp, OF u(1), THEN conjunct1, rule_format, OF l f])
  have e: "\<forall>q\<in>set localPaths. \<not> existsSync noBrowserWorld q"
    by (simp add: noBrowserWorld_def)
  have r4: "getExecutablePath noBrowserWorld = Inl noBrowserError"
    by (rule executable_resolution[of noBrowserWorld, THEN conjunct2, THEN mp, OF n(3),
              THEN conjunct2, THEN mp, OF u(2), THEN conjunct2, THEN mp, OF e])
  from r1 r2 r3 r4 show ?thesis
    by (simp add: localPaths_def)
qed

section \<open>The matchers find the patterns\<close>

lemma optionalSeparator_cases:
  "optionalSeparator sep = (sep = [] \<or> (\<exists>c. sep = [c] \<and> isSeparator c))"
  by (auto simp add: optionalSeparator_def split: list.splits)

lemma sepDigit_iff:
  assumes "\<And>c. D c \<Longrightarrow> \<not> isSeparator c"
  shows "(sepDigit D s = Some d) =
           (\<exists>sep post. s = sep @ [d] @ post \<and> optionalSeparator sep \<and> D d)"
proof
  assume a: "sepDigit D s = Some d"
  show "\<exists>sep post. s = sep @ [d] @ post \<and> optionalSeparator sep \<and> D d"
  proof (cases s)
    case Nil
    with a show ?thesis by (simp add: sepDigit_def)
  next
    case (Cons c cs)
    show ?thesis
    proof (cases "isSeparator c")
      case True
      with a Cons obtain post where "cs = d # post" "D d"
        by (auto simp add: sepDigit_def split: list.splits if_splits)
      with Cons True have "s = [c] @ [d] @ post \<and> optionalSeparator [c] \<and> D d"
        by (simp add: optionalSeparator_def)
      then show ?thesis by blast
    next
      case False
      with a Cons have "c = d" "D d"
        by (auto simp add: sepDigit_def split: if_splits)
      with Cons have "s = [] @ [d] @ cs \<and> optionalSeparator [] \<and> D d"
        by (simp add: optionalSeparator_def)
      then show ?thesis by blast
    qed
  qed
next
  assume "\<exists>sep post. s = sep @ [d] @ post \<and> optionalSeparator sep \<and> D d"
  then obtain sep post where s: "s = sep @ [d] @ post" and o: "optionalSeparator sep" and d: "D d"
    by blast
  from o consider "sep = []" | c where "sep = [c]" "isSeparator c"
    by (auto simp add: optionalSeparator_cases)
  then show "sepDigit D s = Some d"
  proof cases
    case 1
    with s d assms[OF d] show ?thesis by (simp add: sepDigit_def)
  next
    case 2
    with s d show ?thesis by (simp add: sepDigit_def)
  qed
qed

lemma digit_not_separator:
  "isDigit14 c \<Longrightarrow> \<not> isSeparator c" "isDigit13 c \<Longrightarrow> \<not> isSeparator c"
  by (auto simp add: isDigit14_def isDigit13_def isSeparator_def)

lemma yearMatch_sound:
  "yearMatch s = Some (l, d) \<Longrightarrow> \<exists>pre. yearCodeAt pre s l d"
proof (induction s)
  case Nil
  then show ?case by simp
next
  case (Cons c cs)
  show ?case
  proof (cases "toUpperChar c \<in> set ''EP'' \<and> sepDigit isDigit14 cs \<noteq> None")
    case True
    with Cons.prems have lc: "l = c" and sd: "sepDigit isDigit14 cs = Some d"
      by (auto split: option.splits)
    from sd obtain sep post where "cs = sep @ [d] @ post" "optionalSeparator sep" "isDigit14 d"
      using sepDigit_iff[of isDigit14 cs d] digit_not_separator(1) by blast
    with True lc have "yearCodeAt [] (c # cs) l d"
      by (auto simp add: yearCodeAt_def)
    then show ?thesis by blast
  next
    case False
    with Cons.prems have "yearMatch cs = Some (l, d)"
      by (auto split: option.splits if_splits)
    from Cons.IH[OF this] obtain pre where "yearCodeAt pre cs l d" by blast
    then have "yearCodeAt (c # pre) (c # cs) l d"
      by (auto simp add: yearCodeAt_def)
    then show ?thesis by blast
  qed
qed

lemma yearMatch_complete:
  "yearCodeAt pre s l d \<Longrightarrow> yearMatch s \<noteq> None"
proof (induction pre arbitrary: s)
  case Nil
  then obtain sep post where s: "s = l # sep @ [d] @ post"
    and l: "toUpperChar l \<in> set ''EP''" and o: "optionalSeparator sep" and d: "isDigit14 d"
    by (auto simp add: yearCodeAt_def)
  have "sepDigit isDigit14 (sep @ [d] @ post) = Some d"
    using sepDigit_iff[of isDigit14 "sep @ [d] @ post" d] digit_not_separator(1) o d by blast
  with s l show ?case by simp
next
  case (Cons p pre)
  then obtain s' where s: "s = p # s'" and y: "yearCodeAt pre s' l d"
    by (auto simp add: yearCodeAt_def)
  from Cons.IH[OF y] s show ?case
    by (auto split: option.splits)
qed

lemma yearMatch_found: "(\<exists>pre l d. yearCodeAt pre s l d) = (yearMatch s \<noteq> None)"
  using yearMatch_sound yearMatch_complete by (metis option.exhaust surj_pair)

lemma tail_head:
  assumes "optionalSeparator sep" and "D n" and "\<And>c. D c \<Longrightarrow> Q c" and "\<And>c. isSeparator c \<Longrightarrow> Q c"
  shows "\<exists>c rest. sep @ [n] @ post = c # rest \<and> Q c"
  using assms by (auto simp add: optionalSeparator_cases)

lemma upper_not_E: "isSeparator c \<or> isDigit13 c \<Longrightarrow> toUpperChar c \<noteq> CHR ''E''"
  by (auto simp add: isSeparator_def isDigit13_def toUpperChar_def)

lemma not_letter: "isSeparator c \<or> isDigit14 c \<Longrightarrow> \<not> isLetter c"
  by (auto simp add: isSeparator_def isDigit14_def isLetter_def)

lemma upper_length: "canonicalize w = v \<Longrightarrow> length w = length v"
  by (auto simp add: canonicalize_def)

lemma semAfterS_sound:
  assumes "semAfterS r = Some n"
  shows "\<exists>word sep post. r = word @ sep @ [n] @ post \<and>
           canonicalize word \<in> set ['''', ''EM'', ''EMESTER''] \<and> optionalSeparator sep \<and> isDigit13 n"
proof -
  note sd = sepDigit_iff[of isDigit13, OF digit_not_separator(2)]
  from assms consider
      (long) "canonicalize (take 2 r) = ''EM''" "canonicalize (take 5 (drop 2 r)) = ''ESTER''"
        "sepDigit isDigit13 (drop 7 r) = Some n"
    | (short) "canonicalize (take 2 r) = ''EM''" "sepDigit isDigit13 (drop 2 r) = Some n"
    | (bare) "sepDigit isDigit13 r = Some n"
    by (auto simp add: semAfterS_def orElse_def split: if_splits option.splits)
  then show ?thesis
  proof cases
    case long
    have "take 7 r = take 2 r @ take 5 (drop 2 r)"
      using take_add[of 2 5 r] by simp
    then have u: "canonicalize (take 7 r) = ''EMESTER''"
      using long(1,2) by (simp add: canonicalize_def)
    from long(3) obtain sep post where "drop 7 r = sep @ [n] @ post" "optionalSeparator sep" "isDigit13 n"
      using sd by blast
    with u have "r = take 7 r @ sep @ [n] @ post \<and>
        canonicalize (take 7 r) \<in> set ['''', ''EM'', ''EMESTER''] \<and> optionalSeparator sep \<and> isDigit13 n"
      using append_take_drop_id[of 7 r] by simp
    then show ?thesis by blast
  next
    case short
    from short(2) obtain sep post where "drop 2 r = sep @ [n] @ post" "optionalSeparator sep" "isDigit13 n"
      using sd by blast
    with short(1) have "r = take 2 r @ sep @ [n] @ post \<and>
        canonicalize (take 2 r) \<in> set ['''', ''EM'', ''EMESTER''] \<and> optionalSeparator sep \<and> isDigit13 n"
      using append_take_drop_id[of 2 r] by simp
    then show ?thesis by blast
  next
    case bare
    then obtain sep post where "r = sep @ [n] @ post" "optionalSeparator sep" "isDigit13 n"
      using sd by blast
    then have "r = [] @ sep @ [n] @ post \<and>
        canonicalize [] \<in> set ['''', ''EM'', ''EMESTER''] \<and> optionalSeparator sep \<and> isDigit13 n"
      by (simp add: canonicalize_def)
    then show ?thesis by blast
  qed
qed

lemma semAfterS_complete:
  assumes r: "r = word @ sep @ [n] @ post"
    and w: "canonicalize word \<in> set ['''', ''EM'', ''EMESTER'']"
    and o: "optionalSeparator sep" and d: "isDigit13 n"
  shows "semAfterS r = Some n"
proof -
  define T where "T = sep @ [n] @ post"
  have sdT: "sepDigit isDigit13 T = Some n"
    using sepDigit_iff[of isDigit13 T n, OF digit_not_separator(2)] o d T_def by blast
  obtain c rest where T: "T = c # rest" and c: "toUpperChar c \<noteq> CHR ''E''"
    using tail_head[where D = isDigit13 and Q = "\<lambda>c. toUpperChar c \<noteq> CHR ''E''" and post = post, OF o d]
      upper_not_E T_def by blast
  have notEM: "canonicalize (take 2 T) \<noteq> ''EM''"
    using T c by (simp add: canonicalize_def)
  have notESTER: "canonicalize (take 5 T) \<noteq> ''ESTER''"
    using T c by (simp add: canonicalize_def)
  from w consider "word = []" | "canonicalize word = ''EM''" | "canonicalize word = ''EMESTER''"
    by (auto simp add: canonicalize_def)
  then show ?thesis
  proof cases
    case 1
    with r have "r = T" by (simp add: T_def)
    with notEM sdT show ?thesis by (simp add: semAfterS_def orElse_def)
  next
    case 2
    then have l: "length word = 2" using upper_length by fastforce
    with r have "take 2 r = word" "drop 2 r = T" by (simp_all add: T_def)
    with 2 notESTER sdT show ?thesis by (simp add: semAfterS_def orElse_def)
  next
    case 3
    then have l: "length word = 7" using upper_length by fastforce
    with r have t: "take 2 r = take 2 word" "take 5 (drop 2 r) = drop 2 word" "drop 7 r = T"
      by (simp_all add: T_def)
    have "canonicalize (take 2 word) = take 2 (canonicalize word)"
      "canonicalize (drop 2 word) = drop 2 (canonicalize word)"
      by (simp_all add: canonicalize_def take_map drop_map)
    with 3 have "canonicalize (take 2 word) = ''EM''" "canonicalize (drop 2 word) = ''ESTER''"
      by simp_all
    with t sdT show ?thesis by (simp add: semAfterS_def orElse_def)
  qed
qed

lemma semMatch_sound:
  "semMatch s = Some n \<Longrightarrow> \<exists>pre. semesterAt pre s n"
proof (induction s)
  case Nil
  then show ?case by simp
next
  case (Cons c cs)
  show ?case
  proof (cases "toUpperChar c = CHR ''S'' \<and> semAfterS cs \<noteq> None")
    case True
    with Cons.prems have sa: "semAfterS cs = Some n"
      by (auto split: option.splits)
    from semAfterS_sound[OF sa] True have "semesterAt [] (c # cs) n"
      by (auto simp add: semesterAt_def)
    then show ?thesis by blast
  next
    case False
    with Cons.prems have "semMatch cs = Some n"
      by (auto split: option.splits if_splits)
    from Cons.IH[OF this] obtain pre where "semesterAt pre cs n" by blast
    then have "semesterAt (c # pre) (c # cs) n"
      by (auto simp add: semesterAt_def)
    then show ?thesis by blast
  qed
qed

lemma semMatch_complete:
  "semesterAt pre s n \<Longrightarrow> semMatch s \<noteq> None"
proof (induction pre arbitrary: s)
  case Nil
  then obtain S word sep post where s: "s = S # word @ sep @ [n] @ post"
    and S: "toUpperChar S = CHR ''S''"
    and w: "canonicalize word \<in> set ['''', ''EM'', ''EMESTER'']"
    and o: "optionalSeparator sep" and d: "isDigit13 n"
    by (auto simp add: semesterAt_def)
  have "semAfterS (word @ sep @ [n] @ post) = Some n"
    by (rule semAfterS_complete[OF refl w o d])
  with s S show ?case by simp
next
  case (Cons p pre)
  from Cons.prems obtain S word sep post
    where s: "s = (p # pre) @ [S] @ word @ sep @ [n] @ post"
      and rest: "toUpperChar S = CHR ''S''" "canonicalize word \<in> set ['''', ''EM'', ''EMESTER'']"
        "optionalSeparator sep" "isDigit13 n"
    unfolding semesterAt_def by blast
  define s' where "s' = pre @ [S] @ word @ sep @ [n] @ post"
  have y: "semesterAt pre s' n"
    unfolding semesterAt_def s'_def using rest by blast
  have "s = p # s'"
    by (simp add: s s'_def)
  with Cons.IH[OF y] show ?case
    by (auto split: option.splits)
qed

lemma semMatch_found: "(\<exists>pre n. semesterAt pre s n) = (semMatch s \<noteq> None)"
  using semMatch_sound semMatch_complete by (metis option.exhaust)

lemma codeMatch_pattern: "codePattern c d = (codeMatch c = Some d)"
proof
  assume "codePattern c d"
  then obtain letters sep rest where c: "c = letters @ sep @ [d] @ rest"
    and l: "letters \<noteq> []" "\<forall>x\<in>set letters. isLetter x"
    and o: "optionalSeparator sep" and d: "isDigit14 d"
    by (auto simp add: codePattern_def)
  obtain x xs where T: "sep @ [d] @ rest = x # xs" and x: "\<not> isLetter x"
    using tail_head[where D = isDigit14 and Q = "\<lambda>c. \<not> isLetter c" and post = rest, OF o d]
      not_letter by blast
  have tw: "takeWhile isLetter c = letters" "dropWhile isLetter c = sep @ [d] @ rest"
    using l(2) T x c by (simp_all add: takeWhile_append2 dropWhile_append2)
  have "sepDigit isDigit14 (sep @ [d] @ rest) = Some d"
    using sepDigit_iff[of isDigit14 "sep @ [d] @ rest" d, OF digit_not_separator(1)] o d by blast
  with tw l(1) show "codeMatch c = Some d"
    by (simp add: codeMatch_def)
next
  assume a: "codeMatch c = Some d"
  then have ne: "takeWhile isLetter c \<noteq> []" and sd: "sepDigit isDigit14 (dropWhile isLetter c) = Some d"
    by (auto simp add: codeMatch_def split: if_splits)
  from sd obtain sep post where dw: "dropWhile isLetter c = sep @ [d] @ post"
    and o: "optionalSeparator sep" and d: "isDigit14 d"
    using sepDigit_iff[of isDigit14 "dropWhile isLetter c" d, OF digit_not_separator(1)] by blast
  have "c = takeWhile isLetter c @ sep @ [d] @ post"
    using takeWhile_dropWhile_id[of isLetter c] dw by simp
  moreover have "\<forall>x\<in>set (takeWhile isLetter c). isLetter x"
    by (auto dest: set_takeWhileD)
  ultimately show "codePattern c d"
    using ne o d unfolding codePattern_def by blast
qed

section \<open>The title\<close>

lemma take_prefix_iff: "(take (length t) x = t) = (\<exists>b. x = t @ b)"
proof
  assume "take (length t) x = t"
  then have "x = t @ drop (length t) x"
    using append_take_drop_id[of "length t" x] by simp
  then show "\<exists>b. x = t @ b" ..
next
  assume "\<exists>b. x = t @ b"
  then show "take (length t) x = t" by auto
qed

lemma str_includes_iff: "str_includes x t = (\<exists>a b. x = a @ t @ b)"
proof (induction x)
  case Nil
  then show ?case by auto
next
  case (Cons c cs)
  have "(\<exists>a b. c # cs = a @ t @ b) = ((\<exists>b. c # cs = t @ b) \<or> (\<exists>a b. cs = a @ t @ b))"
  proof
    assume "\<exists>a b. c # cs = a @ t @ b"
    then obtain a b where ab: "c # cs = a @ t @ b" by blast
    show "(\<exists>b. c # cs = t @ b) \<or> (\<exists>a b. cs = a @ t @ b)"
    proof (cases a)
      case Nil
      with ab show ?thesis by auto
    next
      case (Cons x a')
      with ab have "cs = a' @ t @ b" by simp
      then show ?thesis by blast
    qed
  next
    assume "(\<exists>b. c # cs = t @ b) \<or> (\<exists>a b. cs = a @ t @ b)"
    then show "\<exists>a b. c # cs = a @ t @ b"
    proof
      assume "\<exists>b. c # cs = t @ b"
      then obtain b where "c # cs = [] @ t @ b" by auto
      then show ?thesis by blast
    next
      assume "\<exists>a b. cs = a @ t @ b"
      then obtain a b where "c # cs = (c # a) @ t @ b" by auto
      then show ?thesis by blast
    qed
  qed
  with Cons.IH show ?case
    by (simp only: str_includes.simps take_prefix_iff)
qed

lemma replaceFirst_absent: "\<not> str_includes s pat \<Longrightarrow> replaceFirst pat rep s = s"
  by (induction s) auto

lemma replaceFirst_first:
  assumes "pat \<noteq> []" and "\<not> str_includes (a @ butlast pat) pat"
  shows "replaceFirst pat rep (a @ pat @ b) = a @ rep @ b"
  using assms(2)
proof (induction a)
  case Nil
  from assms(1) obtain p ps where "pat = p # ps" by (cases pat) auto
  then show ?case by simp
next
  case (Cons x a)
  have split: "x # a @ pat @ b = (x # a @ butlast pat) @ [last pat] @ b"
    using assms(1) by simp
  have len: "length pat \<le> length (x # a @ butlast pat)"
    by simp
  have "take (length pat) (x # a @ pat @ b) = take (length pat) (x # a @ butlast pat)"
    unfolding split using len by (simp only: take_append) simp
  moreover from Cons.prems have "take (length pat) (x # a @ butlast pat) \<noteq> pat"
    and rest: "\<not> str_includes (a @ butlast pat) pat"
    by simp_all
  ultimately have "take (length pat) (x # a @ pat @ b) \<noteq> pat"
    by simp
  then have "replaceFirst pat rep ((x # a) @ pat @ b) = x # replaceFirst pat rep (a @ pat @ b)"
    by simp
  with Cons.IH[OF rest] show ?case
    by simp
qed

lemma toUpperChar_nonascii:
  assumes "digit7 c"
  shows "toUpperChar c = c"
proof -
  have "c \<notin> set ''abcdefghijklmnopqrstuvwxyz''"
    using assms by auto
  then have "map_of (zip ''abcdefghijklmnopqrstuvwxyz'' ''ABCDEFGHIJKLMNOPQRSTUVWXYZ'') c = None"
    by (subst map_of_zip_is_None) simp_all
  then show ?thesis
    by (simp only: toUpperChar_def option.case)
qed

lemma year_letter_ascii: "toUpperChar l \<in> set ''EP'' \<Longrightarrow> \<not> digit7 l"
  using toUpperChar_nonascii[of l] by auto

lemma toUpperCase_ascii: "\<forall>c\<in>set s. \<not> digit7 c \<Longrightarrow> toUpperCase s = map toUpperChar s"
  by (induction s) (simp_all add: toUpperCase.simps)

lemma yearMatch_letter: "yearMatch s = Some (l, d) \<Longrightarrow> toUpperChar l \<in> set ''EP''"
  using yearMatch_sound[of s l d] by (auto simp add: yearCodeAt_def)

lemma upper_examples:
  "toUpperCase [CHR 0xC3, CHR 0xA9, CHR ''t'', CHR 0xC3, CHR 0xA9, CHR '' '', CHR ''2'', CHR ''4''] =
     [CHR 0xC3, CHR 0x89, CHR ''T'', CHR 0xC3, CHR 0x89, CHR '' '', CHR ''2'', CHR ''4'']"
  "toUpperCase [CHR ''s'', CHR ''t'', CHR ''r'', CHR ''a'', CHR 0xC3, CHR 0x9F, CHR ''e''] = ''STRASSE''"
  by code_simp+

lemma title_composed:
  assumes "yearMatch s = Some (l, d)" and "semMatch s = Some n"
  shows "resultTitle s gs = [toUpperChar l, d] @ '' SEMESTER-'' @ [n] @ '' RESULTS''"
proof -
  have "\<not> digit7 l"
    by (rule year_letter_ascii[OF yearMatch_letter[OF assms(1)]])
  then have "toUpperCase [l] = [toUpperChar l]"
    by (simp add: toUpperCase.simps)
  with assms show ?thesis
    by (simp add: resultTitle_def)
qed

lemma title_inferred:
  assumes "yearMatch s = None" and "semMatch s = Some n" and "gs \<noteq> []"
    and "subjCode (gSubject (hd gs)) = Some c" and "codeMatch c = Some d"
  shows "resultTitle s gs = ''E'' @ [d] @ '' SEMESTER-'' @ [n] @ '' RESULTS''"
proof -
  from assms(5) have "c \<noteq> []"
    by (auto simp add: codeMatch_def)
  with assms show ?thesis
    by (simp add: resultTitle_def)
qed

lemma title_fallback:
  assumes "semMatch s = None \<or>
           (yearMatch s = None \<and>
            (gs = [] \<or> (\<forall>c. subjCode (gSubject (hd gs)) = Some c \<longrightarrow> codeMatch c = None)))"
  shows "resultTitle s gs =
           replaceFirst '' RESULTS RESULTS'' '' RESULTS'' (toUpperCase s @ '' RESULTS'')"
  using assms
  by (auto simp add: resultTitle_def Let_def split: option.splits)

lemma leftmost_absent:
  assumes "pat \<noteq> []" and "x = a @ pat @ b"
    and "\<forall>a' b'. x = a' @ pat @ b' \<longrightarrow> length a \<le> length a'"
  shows "\<not> str_includes (a @ butlast pat) pat"
proof
  assume "str_includes (a @ butlast pat) pat"
  then obtain a' c where ac: "a @ butlast pat = a' @ pat @ c"
    unfolding str_includes_iff by blast
  have "x = (a @ butlast pat) @ [last pat] @ b"
    using assms(1,2) by simp
  with ac have "x = a' @ pat @ (c @ [last pat] @ b)"
    by simp
  with assms(3) have "length a \<le> length a'"
    by blast
  moreover from ac have "length (a @ butlast pat) = length (a' @ pat @ c)"
    by simp
  then have "length a + (length pat - 1) = length a' + length pat + length c"
    by simp
  moreover from assms(1) have "0 < length pat"
    by simp
  ultimately show False
    by arith
qed

lemma absent_leftmost:
  assumes "pat \<noteq> []" and "\<not> str_includes (a @ butlast pat) pat"
    and "a @ pat @ b = a' @ pat @ b'"
  shows "length a \<le> length a'"
proof (rule ccontr)
  assume "\<not> length a \<le> length a'"
  then have less: "length a' < length a"
    by simp
  from assms(3) have "take (length a') (a @ pat @ b) = a'"
    by simp
  with less have a': "a' = take (length a') a"
    by simp
  define c where "c = drop (length a') a"
  have a: "a = a' @ c"
    unfolding c_def using a' append_take_drop_id[of "length a'" a] by simp
  have c: "c \<noteq> []"
    unfolding c_def using less by simp
  from assms(3) a have eq: "c @ pat @ b = pat @ b'"
    by simp
  have split: "c @ pat @ b = (c @ butlast pat) @ [last pat] @ b"
    using assms(1) by simp
  have len: "length pat \<le> length (c @ butlast pat)"
    using c by (cases c) simp_all
  from eq have "take (length pat) (c @ pat @ b) = pat"
    by simp
  then have "take (length pat) (c @ butlast pat) = pat"
    unfolding split using len by simp
  then obtain d where "c @ butlast pat = pat @ d"
    unfolding take_prefix_iff by blast
  with a have "a @ butlast pat = a' @ pat @ d"
    by simp
  then have "str_includes (a @ butlast pat) pat"
    unfolding str_includes_iff by blast
  with assms(2) show False
    by simp
qed

lemma replaceFirst_leftmost:
  assumes "pat \<noteq> []" and "x = a @ pat @ b"
    and "\<forall>a' b'. x = a' @ pat @ b' \<longrightarrow> length a \<le> length a'"
  shows "replaceFirst pat rep x = a @ rep @ b"
  using replaceFirst_first[OF assms(1) leftmost_absent[OF assms], of rep b] assms(2)
  by simp

lemmas match_eval = codeMatch_def semAfterS_def sepDigit_def orElse_def isLetter_def
  isDigit13_def isDigit14_def isSeparator_def canonicalize_def toUpperChar_def

text \<open>
  \<^bold>\<open>C7\<close> as the claim states it fails, twice.  The year is inferred from the subject code
  of the first grade entry only: \<open>S1\<close> has a semester and no year, the second entry's code
  \<open>CS2101\<close> matches the letters-then-digit pattern, and the title is the fallback.  And the
  fallback replaces the first \<open>RESULTS RESULTS\<close> wherever it is: a doubled suffix stays
  doubled when an earlier occurrence is the one replaced, and an occurrence that is not
  the suffix is replaced too.
\<close>

theorem title_claim_counterexample:
  "yearMatch ''S1'' = None \<and> semMatch ''S1'' = Some CHR ''1'' \<and>
   subjCode (gSubject (secondCodeGrades ! 1)) = Some ''CS2101'' \<and>
   codeMatch ''CS2101'' = Some CHR ''2'' \<and>
   resultTitle ''S1'' secondCodeGrades = ''S1 RESULTS'' \<and>
   resultTitle ''S1'' secondCodeGrades \<noteq> ''E2 SEMESTER-1 RESULTS'' \<and>
   resultTitle ''x results results y results'' [] = ''X RESULTS Y RESULTS RESULTS'' \<and>
   resultTitle ''a results results b'' [] = ''A RESULTS B RESULTS''"
  by (simp add: secondCodeGrades_def resultTitle_def match_eval toUpperCase.simps Let_def)

text \<open>
  \<^bold>\<open>C7\<close>, amended.  The title is a function of every string \<open>semesterId\<close> and every list
  of grade entries, the empty string included.  When the year pattern and the semester
  pattern are both found in \<open>semesterId\<close>, the title is the upper-cased year letter, the year
  digit, \<open>SEMESTER-\<close>, the semester digit and \<open>RESULTS\<close>.  When the year is missing, the
  semester is found and the subject code of the \<^emph>\<open>first\<close> grade entry matches the
  letters-then-digit pattern, the year is \<open>E\<close> and that code's digit.  In every other case
  the title is made from the upper-cased \<open>semesterId\<close> followed by \<open>RESULTS\<close>: it is that
  string itself when \<open>RESULTS RESULTS\<close> (with its leading space) does not occur in it, and
  otherwise that string with the leftmost occurrence, wherever it is, replaced by a single
  \<open>RESULTS\<close>.  The matchers find exactly the patterns of the description.
\<close>

theorem resultTitle_cases:
  "(\<forall>l d n. yearMatch s = Some (l, d) \<and> semMatch s = Some n \<longrightarrow>
      resultTitle s gs = [toUpperChar l, d] @ '' SEMESTER-'' @ [n] @ '' RESULTS'') \<and>
   (\<forall>c d n. yearMatch s = None \<and> semMatch s = Some n \<and> gs \<noteq> [] \<and>
        subjCode (gSubject (hd gs)) = Some c \<and> codeMatch c = Some d \<longrightarrow>
      resultTitle s gs = ''E'' @ [d] @ '' SEMESTER-'' @ [n] @ '' RESULTS'') \<and>
   (semMatch s = None \<or>
    (yearMatch s = None \<and>
     (gs = [] \<or> (\<forall>c. subjCode (gSubject (hd gs)) = Some c \<longrightarrow> codeMatch c = None))) \<longrightarrow>
      (\<not> (\<exists>a b. toUpperCase s @ '' RESULTS'' = a @ '' RESULTS RESULTS'' @ b) \<longrightarrow>
         resultTitle s gs = toUpperCase s @ '' RESULTS'') \<and>
      (\<forall>a b. toUpperCase s @ '' RESULTS'' = a @ '' RESULTS RESULTS'' @ b \<and>
           (\<forall>a' b'. toUpperCase s @ '' RESULTS'' = a' @ '' RESULTS RESULTS'' @ b' \<longrightarrow>
              length a \<le> length a') \<longrightarrow>
         resultTitle s gs = a @ '' RESULTS'' @ b)) \<and>
   resultTitle [] [] = '' RESULTS'' \<and>
   ((\<exists>pre l d. yearCodeAt pre s l d) = (yearMatch s \<noteq> None)) \<and>
   (\<forall>l d. yearMatch s = Some (l, d) \<longrightarrow> (\<exists>pre. yearCodeAt pre s l d)) \<and>
   ((\<exists>pre n. semesterAt pre s n) = (semMatch s \<noteq> None)) \<and>
   (\<forall>n. semMatch s = Some n \<longrightarrow> (\<exists>pre. semesterAt pre s n)) \<and>
   (\<forall>c d. codePattern c d = (codeMatch c = Some d))"
proof -
  have p1: "\<forall>l d n. yearMatch s = Some (l, d) \<and> semMatch s = Some n \<longrightarrow>
      resultTitle s gs = [toUpperChar l, d] @ '' SEMESTER-'' @ [n] @ '' RESULTS''"
    using title_composed by blast
  have p2: "\<forall>c d n. yearMatch s = None \<and> semMatch s = Some n \<and> gs \<noteq> [] \<and>
        subjCode (gSubject (hd gs)) = Some c \<and> codeMatch c = Some d \<longrightarrow>
      resultTitle s gs = ''E'' @ [d] @ '' SEMESTER-'' @ [n] @ '' RESULTS''"
    using title_inferred by blast
  have p3: "semMatch s = None \<or>
    (yearMatch s = None \<and>
     (gs = [] \<or> (\<forall>c. subjCode (gSubject (hd gs)) = Some c \<longrightarrow> codeMatch c = None))) \<longrightarrow>
      (\<not> (\<exists>a b. toUpperCase s @ '' RESULTS'' = a @ '' RESULTS RESULTS'' @ b) \<longrightarrow>
         resultTitle s gs = toUpperCase s @ '' RESULTS'') \<and>
      (\<forall>a b. toUpperCase s @ '' RESULTS'' = a @ '' RESULTS RESULTS'' @ b \<and>
           (\<forall>a' b'. toUpperCase s @ '' RESULTS'' = a' @ '' RESULTS RESULTS'' @ b' \<longrightarrow>
              length a \<le> length a') \<longrightarrow>
         resultTitle s gs = a @ '' RESULTS'' @ b)"
  proof (intro impI conjI allI)
    assume fb: "semMatch s = None \<or>
      (yearMatch s = None \<and>
       (gs = [] \<or> (\<forall>c. subjCode (gSubject (hd gs)) = Some c \<longrightarrow> codeMatch c = None)))"
    assume "\<not> (\<exists>a b. toUpperCase s @ '' RESULTS'' = a @ '' RESULTS RESULTS'' @ b)"
    then have "\<not> str_includes (toUpperCase s @ '' RESULTS'') '' RESULTS RESULTS''"
      unfolding str_includes_iff .
    then show "resultTitle s gs = toUpperCase s @ '' RESULTS''"
      using title_fallback[OF fb] replaceFirst_absent by simp
  next
    fix a b
    assume fb: "semMatch s = None \<or>
      (yearMatch s = None \<and>
       (gs = [] \<or> (\<forall>c. subjCode (gSubject (hd gs)) = Some c \<longrightarrow> codeMatch c = None)))"
    assume occ: "toUpperCase s @ '' RESULTS'' = a @ '' RESULTS RESULTS'' @ b \<and>
           (\<forall>a' b'. toUpperCase s @ '' RESULTS'' = a' @ '' RESULTS RESULTS'' @ b' \<longrightarrow>
              length a \<le> length a')"
    have "replaceFirst '' RESULTS RESULTS'' '' RESULTS'' (toUpperCase s @ '' RESULTS'')
            = a @ '' RESULTS'' @ b"
      by (rule replaceFirst_leftmost) (use occ in simp_all)
    then show "resultTitle s gs = a @ '' RESULTS'' @ b"
      using title_fallback[OF fb] by simp
  qed
  have p6: "resultTitle [] [] = '' RESULTS''"
    by (simp add: resultTitle_def toUpperCase.simps)
  have p7: "(\<exists>pre l d. yearCodeAt pre s l d) = (yearMatch s \<noteq> None)"
    by (rule yearMatch_found)
  have p8: "\<forall>l d. yearMatch s = Some (l, d) \<longrightarrow> (\<exists>pre. yearCodeAt pre s l d)"
    using yearMatch_sound by blast
  have p9: "(\<exists>pre n. semesterAt pre s n) = (semMatch s \<noteq> None)"
    by (rule semMatch_found)
  have p10: "\<forall>n. semMatch s = Some n \<longrightarrow> (\<exists>pre. semesterAt pre s n)"
    using semMatch_sound by blast
  have p11: "\<forall>c d. codePattern c d = (codeMatch c = Some d)"
    using codeMatch_pattern by blast
  show ?thesis
    by (rule conjI[OF p1 conjI[OF p2 conjI[OF p3 conjI[OF p6
          conjI[OF p7 conjI[OF p8 conjI[OF p9 conjI[OF p10 p11]]]]]]]])
qed

theorem resultTitle_cases_witness:
  "resultTitle ''E2S1'' (grades exampleData) = ''E2 SEMESTER-1 RESULTS'' \<and>
   resultTitle ''ay24-p3_sem 2'' [] = ''P3 SEMESTER-2 RESULTS'' \<and>
   resultTitle ''S1'' (grades exampleData) = ''E2 SEMESTER-1 RESULTS'' \<and>
   resultTitle ''Monsoon'' (grades exampleData) = ''MONSOON RESULTS'' \<and>
   resultTitle [CHR 0xC3, CHR 0xA9, CHR ''t'', CHR 0xC3, CHR 0xA9, CHR '' '', CHR ''2'', CHR ''4''] [] =
     [CHR 0xC3, CHR 0x89, CHR ''T'', CHR 0xC3, CHR 0x89, CHR '' '', CHR ''2'', CHR ''4''] @ '' RESULTS'' \<and>
   resultTitle [CHR ''s'', CHR ''t'', CHR ''r'', CHR ''a'', CHR 0xC3, CHR 0x9F, CHR ''e''] [] =
     ''STRASSE RESULTS'' \<and>
   resultTitle ''final results'' [] = ''FINAL RESULTS'' \<and>
   resultTitle ''a results results b'' [] = ''A RESULTS B RESULTS'' \<and>
   resultTitle ''x results results y results'' [] = ''X RESULTS Y RESULTS RESULTS''"
proof -
  have a1: "yearMatch ''E2S1'' = Some (CHR ''E'', CHR ''2'') \<and> semMatch ''E2S1'' = Some CHR ''1''"
    by (simp add: match_eval)
  have r1: "resultTitle ''E2S1'' (grades exampleData) = ''E2 SEMESTER-1 RESULTS''"
    using resultTitle_cases[of "''E2S1''" "grades exampleData", THEN conjunct1, rule_format, OF a1]
    by (simp add: toUpperChar_def)
  have a2: "yearMatch ''ay24-p3_sem 2'' = Some (CHR ''p'', CHR ''3'') \<and>
            semMatch ''ay24-p3_sem 2'' = Some CHR ''2''"
    by (simp add: match_eval)
  have r2: "resultTitle ''ay24-p3_sem 2'' [] = ''P3 SEMESTER-2 RESULTS''"
    using resultTitle_cases[of "''ay24-p3_sem 2''" "[]", THEN conjunct1, rule_format, OF a2]
    by (simp add: toUpperChar_def)
  have a3: "yearMatch ''S1'' = None \<and> semMatch ''S1'' = Some CHR ''1'' \<and> grades exampleData \<noteq> [] \<and>
            subjCode (gSubject (hd (grades exampleData))) = Some ''MA2101'' \<and>
            codeMatch ''MA2101'' = Some CHR ''2''"
    by (simp add: match_eval exampleData_def)
  have r3: "resultTitle ''S1'' (grades exampleData) = ''E2 SEMESTER-1 RESULTS''"
    using resultTitle_cases[of "''S1''" "grades exampleData", THEN conjunct2, THEN conjunct1,
            rule_format, OF a3]
    by simp
  note fb = conjunct2[THEN conjunct2, THEN conjunct1, THEN mp]
  have a4: "semMatch ''Monsoon'' = None \<or>
            (yearMatch ''Monsoon'' = None \<and>
             (grades exampleData = [] \<or>
              (\<forall>c. subjCode (gSubject (hd (grades exampleData))) = Some c \<longrightarrow> codeMatch c = None)))"
    by (simp add: match_eval)
  have u4: "toUpperCase ''Monsoon'' = ''MONSOON''"
    by (simp add: toUpperCase.simps toUpperChar_def)
  have n4: "\<not> (\<exists>a b. toUpperCase ''Monsoon'' @ '' RESULTS'' = a @ '' RESULTS RESULTS'' @ b)"
    unfolding u4 str_includes_iff[symmetric] by simp
  have r4: "resultTitle ''Monsoon'' (grades exampleData) = ''MONSOON RESULTS''"
    using resultTitle_cases[of "''Monsoon''" "grades exampleData", THEN fb, OF a4,
            THEN conjunct1, THEN mp, OF n4]
    unfolding u4 by simp
  let ?ete = "[CHR 0xC3, CHR 0xA9, CHR ''t'', CHR 0xC3, CHR 0xA9, CHR '' '', CHR ''2'', CHR ''4'']"
  let ?ETE = "[CHR 0xC3, CHR 0x89, CHR ''T'', CHR 0xC3, CHR 0x89, CHR '' '', CHR ''2'', CHR ''4'']"
  have a5: "semMatch ?ete = None \<or>
            (yearMatch ?ete = None \<and>
             ([] = [] \<or> (\<forall>c. subjCode (gSubject (hd [])) = Some c \<longrightarrow> codeMatch c = None)))"
    by (simp add: match_eval)
  have u5: "toUpperCase ?ete = ?ETE"
    by (rule upper_examples(1))
  have n5: "\<not> (\<exists>a b. toUpperCase ?ete @ '' RESULTS'' = a @ '' RESULTS RESULTS'' @ b)"
    unfolding u5 str_includes_iff[symmetric] by simp
  have r5: "resultTitle ?ete [] = ?ETE @ '' RESULTS''"
    using resultTitle_cases[of ?ete "[]", THEN fb, OF a5, THEN conjunct1, THEN mp, OF n5]
    unfolding u5 .
  let ?str = "[CHR ''s'', CHR ''t'', CHR ''r'', CHR ''a'', CHR 0xC3, CHR 0x9F, CHR ''e'']"
  have a6: "semMatch ?str = None \<or>
            (yearMatch ?str = None \<and>
             ([] = [] \<or> (\<forall>c. subjCode (gSubject (hd [])) = Some c \<longrightarrow> codeMatch c = None)))"
    by (simp add: match_eval)
  have u6: "toUpperCase ?str = ''STRASSE''"
    by (rule upper_examples(2))
  have n6: "\<not> (\<exists>a b. toUpperCase ?str @ '' RESULTS'' = a @ '' RESULTS RESULTS'' @ b)"
    unfolding u6 str_includes_iff[symmetric] by simp
  have r6: "resultTitle ?str [] = ''STRASSE RESULTS''"
    using resultTitle_cases[of ?str "[]", THEN fb, OF a6, THEN conjunct1, THEN mp, OF n6]
    unfolding u6 by simp
  have a7: "semMatch ''final results'' = None \<or>
            (yearMatch ''final results'' = None \<and>
             ([] = [] \<or> (\<forall>c. subjCode (gSubject (hd [])) = Some c \<longrightarrow> codeMatch c = None)))"
    by (simp add: match_eval)
  have u7: "toUpperCase ''final results'' = ''FINAL RESULTS''"
    by (simp add: toUpperCase.simps toUpperChar_def)
  have o7: "toUpperCase ''final results'' @ '' RESULTS'' = ''FINAL'' @ '' RESULTS RESULTS'' @ [] \<and>
            (\<forall>a' b'. toUpperCase ''final results'' @ '' RESULTS'' = a' @ '' RESULTS RESULTS'' @ b' \<longrightarrow>
               length ''FINAL'' \<le> length a')"
  proof (intro conjI allI impI)
    show e: "toUpperCase ''final results'' @ '' RESULTS'' = ''FINAL'' @ '' RESULTS RESULTS'' @ []"
      unfolding u7 by simp
    fix a' b'
    assume "toUpperCase ''final results'' @ '' RESULTS'' = a' @ '' RESULTS RESULTS'' @ b'"
    with e have "''FINAL'' @ '' RESULTS RESULTS'' @ [] = a' @ '' RESULTS RESULTS'' @ b'"
      by simp
    then show "length ''FINAL'' \<le> length a'"
      by (rule absent_leftmost[rotated 2]) simp_all
  qed
  have r7: "resultTitle ''final results'' [] = ''FINAL RESULTS''"
    using resultTitle_cases[of "''final results''" "[]", THEN fb, OF a7, THEN conjunct2,
            rule_format, OF o7]
    by simp
  have a8: "semMatch ''a results results b'' = None \<or>
            (yearMatch ''a results results b'' = None \<and>
             ([] = [] \<or> (\<forall>c. subjCode (gSubject (hd [])) = Some c \<longrightarrow> codeMatch c = None)))"
    by (simp add: match_eval)
  have u8: "toUpperCase ''a results results b'' = ''A RESULTS RESULTS B''"
    by (simp add: toUpperCase.simps toUpperChar_def)
  have o8: "toUpperCase ''a results results b'' @ '' RESULTS'' =
              ''A'' @ '' RESULTS RESULTS'' @ '' B RESULTS'' \<and>
            (\<forall>a' b'. toUpperCase ''a results results b'' @ '' RESULTS'' =
                a' @ '' RESULTS RESULTS'' @ b' \<longrightarrow> length ''A'' \<le> length a')"
  proof (intro conjI allI impI)
    show e: "toUpperCase ''a results results b'' @ '' RESULTS'' =
               ''A'' @ '' RESULTS RESULTS'' @ '' B RESULTS''"
      unfolding u8 by simp
    fix a' b'
    assume "toUpperCase ''a results results b'' @ '' RESULTS'' = a' @ '' RESULTS RESULTS'' @ b'"
    with e have "''A'' @ '' RESULTS RESULTS'' @ '' B RESULTS'' = a' @ '' RESULTS RESULTS'' @ b'"
      by simp
    then show "length ''A'' \<le> length a'"
      by (rule absent_leftmost[rotated 2]) simp_all
  qed
  have r8: "resultTitle ''a results results b'' [] = ''A RESULTS B RESULTS''"
    using resultTitle_cases[of "''a results results b''" "[]", THEN fb, OF a8, THEN conjunct2,
            rule_format, OF o8]
    by simp
  have a9: "semMatch ''x results results y results'' = None \<or>
            (yearMatch ''x results results y results'' = None \<and>
             ([] = [] \<or> (\<forall>c. subjCode (gSubject (hd [])) = Some c \<longrightarrow> codeMatch c = None)))"
    by (simp add: match_eval)
  have u9: "toUpperCase ''x results results y results'' = ''X RESULTS RESULTS Y RESULTS''"
    by (simp add: toUpperCase.simps toUpperChar_def)
  have o9: "toUpperCase ''x results results y results'' @ '' RESULTS'' =
              ''X'' @ '' RESULTS RESULTS'' @ '' Y RESULTS RESULTS'' \<and>
            (\<forall>a' b'. toUpperCase ''x results results y results'' @ '' RESULTS'' =
                a' @ '' RESULTS RESULTS'' @ b' \<longrightarrow> length ''X'' \<le> length a')"
  proof (intro conjI allI impI)
    show e: "toUpperCase ''x results results y results'' @ '' RESULTS'' =
               ''X'' @ '' RESULTS RESULTS'' @ '' Y RESULTS RESULTS''"
      unfolding u9 by simp
    fix a' b'
    assume "toUpperCase ''x results results y results'' @ '' RESULTS'' =
              a' @ '' RESULTS RESULTS'' @ b'"
    with e have "''X'' @ '' RESULTS RESULTS'' @ '' Y RESULTS RESULTS'' =
                   a' @ '' RESULTS RESULTS'' @ b'"
      by simp
    then show "length ''X'' \<le> length a'"
      by (rule absent_leftmost[rotated 2]) simp_all
  qed
  have r9: "resultTitle ''x results results y results'' [] = ''X RESULTS Y RESULTS RESULTS''"
    using resultTitle_cases[of "''x results results y results''" "[]", THEN fb, OF a9,
            THEN conjunct2, rule_format, OF o9]
    by simp
  show ?thesis
    by (rule conjI[OF r1 conjI[OF r2 conjI[OF r3 conjI[OF r4 conjI[OF r5 conjI[OF r6
          conjI[OF r7 conjI[OF r8 r9]]]]]]]])
qed

end
